theory Spec2Isabelle
  imports Main
begin

section \<open>Import locations: \<open>parseImportType\<close>\<close>

text \<open>
  Every \<open>throw new Error(...)\<close> of \<open>src/index.ts\<close> is a constructor of \<open>error\<close>;
  the message text is left out, the values the message is built from are kept.
  \<open>TypeError\<close> is the error JavaScript raises itself (a property read on \<open>null\<close> or
  \<open>undefined\<close>, a call of a method the value does not have); \<open>LoaderError\<close> and
  \<open>YamlError\<close> are the failures of the import loader and of the YAML codec;
  \<open>StackOverflow\<close> is the \<open>RangeError\<close> of a call stack that is used up (the fuel of
  the walker below is the depth of the stack); \<open>ImportsNotLoaded\<close> is a run of
  \<open>loadImports\<close> that has not returned within the given depth of nested imports (the
  source awaits each nested call and never returns from a cycle of imports);
  \<open>Unmodelled\<close> marks the
  few values the model cannot hold (an array or a tag instance with extra named
  properties).
\<close>

datatype error =
    ImportNotAllowedFromRemote string string
  | UnknownImportType string string
  | StringTemplateError string string
  | InvalidImports string
  | DuplicateImport string string
  | DefCollision string string
  | ParamCollision string string
  | InvalidLookupKey string
  | CouldNotFind string string
  | CouldNotFindPath "string list" string string
  | MergeKeyPresent string string
  | MissingRequiredParameter string string
  | InvalidSchema string string
  | ParameterValidation string string
  | InvalidValue string string
  | InvalidResourceType string
  | InvalidExpandArguments
  | InvalidFlattenArgument string
  | ShouldNotReach string
  | TemplateNotExpanded string
  | TypeError string
  | LoaderError string
  | YamlError string
  | StackOverflow
  | ImportsNotLoaded
  | Unmodelled string

text \<open>
  \<open>String.prototype.toLowerCase\<close> on the ASCII letters. No supported scheme name holds
  a letter that a non-ASCII character lower-cases to, so the comparison with the
  scheme names is the same as in the source.
\<close>

definition toLowerChar :: "char \<Rightarrow> char" where
  "toLowerChar c =
     (case map_of (zip ''ABCDEFGHIJKLMNOPQRSTUVWXYZ'' ''abcdefghijklmnopqrstuvwxyz'') c of
        Some l \<Rightarrow> l
      | None \<Rightarrow> c)"

definition toLowerCase :: "string \<Rightarrow> string" where
  "toLowerCase s = map toLowerChar s"

text \<open>\<open>location.indexOf(':') > -1\<close>\<close>

definition hasExplicitType :: "string \<Rightarrow> bool" where
  "hasExplicitType location = (CHR '':'' \<in> set location)"

text \<open>\<open>s.split(':')[0]\<close>: the part before the first colon.\<close>

definition beforeColon :: "string \<Rightarrow> string" where
  "beforeColon s = takeWhile (\<lambda>c. c \<noteq> CHR '':'') s"

text \<open>
  \<open>hasExplicitType ? location.toLowerCase().split(':')[0] : "file"\<close>. The cast
  \<open>as ImportType\<close> checks nothing, so the result is any string.
\<close>

definition importTypeOf :: "string \<Rightarrow> string" where
  "importTypeOf location =
     (if hasExplicitType location then beforeColon (toLowerCase location) else ''file'')"

definition importTypes :: "string list" where
  "importTypes =
     [''ssm'', ''ssm-path'', ''file'', ''s3'', ''http'', ''env'', ''git'', ''random'',
      ''filehash'', ''literal'']"

definition localOnlyImportTypes :: "string list" where
  "localOnlyImportTypes = [''file'', ''env'']"

definition parseImportType :: "string \<Rightarrow> string \<Rightarrow> error + string" where
  "parseImportType location baseLocation =
     (let importType = importTypeOf location;
          baseImportType = importTypeOf baseLocation
      in if baseImportType \<in> set [''s3'', ''http''] then
           (if \<not> hasExplicitType location then Inr baseImportType
            else if importType \<in> set localOnlyImportTypes then
              Inl (ImportNotAllowedFromRemote location baseLocation)
            else Inr importType)
         else if importType \<in> set importTypes then Inr importType
         else Inl (UnknownImportType location baseLocation))"

section \<open>Documents\<close>

text \<open>
  Modelled from the spec: the tagged nodes of \<open>./yaml\<close> (the module is not among the
  sources). "A tagged node is a (tag-kind, payload) pair produced by the
  structured-document parser"; the kinds are the classes \<open>index.ts\<close> tests with
  \<open>instanceof\<close>, and \<open>TagOther\<close> is any other subclass of \<open>yaml.Tag\<close> with its name.
\<close>

datatype tagKind =
    TagInclude | TagExpand | TagEscape | TagString | TagParseYaml | TagLet | TagMap
  | TagFlatten | TagConcatMap | TagMapListToHash | TagFromPairs | TagRef
  | TagOther string

text \<open>
  The values the walker meets (\<open>node: any\<close>). An object is its list of properties in
  insertion order; a number is an integer (the walker does no arithmetic); a date
  carries what its \<open>toISOString()\<close> and its \<open>toString()\<close> return.
\<close>

datatype node =
    JUndefined
  | JNull
  | JBool bool
  | JNum int
  | JStr string
  | JDate string string
  | JArr "node list"
  | JObj "(string \<times> node) list"
  | JTag tagKind node

subsection \<open>Strings\<close>

fun startsWith :: "string \<Rightarrow> string \<Rightarrow> bool" where
  "startsWith s [] = True"
| "startsWith [] (p # ps) = False"
| "startsWith (c # cs) (p # ps) = (c = p \<and> startsWith cs ps)"

text \<open>\<open>s.indexOf(p) > -1\<close>\<close>

fun includesStr :: "string \<Rightarrow> string \<Rightarrow> bool" where
  "includesStr [] p = (p = [])"
| "includesStr (c # cs) p = (startsWith (c # cs) p \<or> includesStr cs p)"

text \<open>\<open>s.split('.')\<close>, never empty.\<close>

fun splitDots :: "string \<Rightarrow> string list" where
  "splitDots [] = [[]]"
| "splitDots (c # cs) =
     (if c = CHR ''.'' then [] # splitDots cs
      else (case splitDots cs of [] \<Rightarrow> [[c]] | seg # segs \<Rightarrow> (c # seg) # segs))"

text \<open>\<open>path.split('.').pop()\<close>\<close>

definition lastSegment :: "string \<Rightarrow> string" where
  "lastSegment path = last (splitDots path)"

text \<open>
  \<open>s.search(/{{(.*?)}}/) > -1\<close>: somewhere \<open>{{\<close> is followed by \<open>}}\<close> with no line
  terminator in between (the dot matches none; of the line terminators the model has
  the ASCII ones).
\<close>

fun closesMustache :: "string \<Rightarrow> bool" where
  "closesMustache [] = False"
| "closesMustache [c] = False"
| "closesMustache (c # d # cs) =
     (if c = CHR ''}'' \<and> d = CHR ''}'' then True
      else if c = CHR 0x0A \<or> c = CHR 0x0D then False
      else closesMustache (d # cs))"

fun hasMustache :: "string \<Rightarrow> bool" where
  "hasMustache [] = False"
| "hasMustache [c] = False"
| "hasMustache (c # d # cs) =
     ((c = CHR ''{'' \<and> d = CHR ''{'' \<and> closesMustache cs) \<or> hasMustache (d # cs))"

definition digitChar :: "nat \<Rightarrow> char" where
  "digitChar d = ''0123456789'' ! (d mod 10)"

fun showNat :: "nat \<Rightarrow> string" where
  "showNat n = (if n < 10 then [digitChar n] else showNat (n div 10) @ [digitChar n])"

declare showNat.simps [simp del]

definition showInt :: "int \<Rightarrow> string" where
  "showInt i = (if i < 0 then CHR ''-'' # showNat (nat (- i)) else showNat (nat i))"

text \<open>A canonical array index: the decimal string of a natural number.\<close>

definition parseIndex :: "string \<Rightarrow> nat option" where
  "parseIndex s =
     (if s \<noteq> [] \<and> (\<forall>c \<in> set s. c \<in> set ''0123456789'') \<and> (length s = 1 \<or> hd s \<noteq> CHR ''0'')
      then Some (foldl (\<lambda>n c. 10 * n + (of_char c - 48)) 0 s)
      else None)"

subsection \<open>Values as JavaScript reads them\<close>

text \<open>Truthiness: what \<open>if (v)\<close>, \<open>v || w\<close> and \<open>!v\<close> test.\<close>

fun truthy :: "node \<Rightarrow> bool" where
  "truthy JUndefined = False"
| "truthy JNull = False"
| "truthy (JBool b) = b"
| "truthy (JNum n) = (n \<noteq> 0)"
| "truthy (JStr s) = (s \<noteq> [])"
| "truthy v = True"

definition nullish :: "node \<Rightarrow> bool" where
  "nullish v = (v = JUndefined \<or> v = JNull)"

text \<open>\<open>_.isObject\<close>: objects, arrays, dates and tag instances.\<close>

fun isObject :: "node \<Rightarrow> bool" where
  "isObject (JObj kvs) = True"
| "isObject (JArr xs) = True"
| "isObject (JDate di ds) = True"
| "isObject (JTag k d) = True"
| "isObject v = False"

text \<open>\<open>_.isPlainObject\<close>: an object built by a literal or by the parser.\<close>

fun isPlainObject :: "node \<Rightarrow> bool" where
  "isPlainObject (JObj kvs) = True"
| "isPlainObject v = False"

fun isArray :: "node \<Rightarrow> bool" where
  "isArray (JArr xs) = True"
| "isArray v = False"

text \<open>
  \<open>_isPlainMap\<close>: \<open>_.isObject(node) && !node.is_yaml_tag && !_.isDate(node) &&
  !_.isRegExp(node) && !_.isFunction(node)\<close>. It holds of an array too; \<open>visitNode\<close>
  asks \<open>_.isArray\<close> first.
\<close>

fun isPlainMap :: "node \<Rightarrow> bool" where
  "isPlainMap (JObj kvs) = True"
| "isPlainMap (JArr xs) = True"
| "isPlainMap v = False"

text \<open>Own enumerable properties, as \<open>_.toPairs\<close>, \<open>_.keys\<close> and \<open>for ... in\<close> list them.
  A tag instance has its payload under \<open>data\<close>.\<close>

definition indexed :: "'a list \<Rightarrow> (nat \<times> 'a) list" where
  "indexed xs = zip [0 ..< length xs] xs"

fun toPairs :: "node \<Rightarrow> (string \<times> node) list" where
  "toPairs (JObj kvs) = kvs"
| "toPairs (JArr xs) = map (\<lambda>(i, x). (showNat i, x)) (indexed xs)"
| "toPairs (JStr s) = map (\<lambda>(i, c). (showNat i, JStr [c])) (indexed s)"
| "toPairs (JTag k d) = [(''data'', d)]"
| "toPairs v = []"

definition keys :: "node \<Rightarrow> string list" where
  "keys v = map fst (toPairs v)"

definition objValues :: "node \<Rightarrow> node list" where
  "objValues v = map snd (toPairs v)"

text \<open>\<open>v[k]\<close> for a value that is neither \<open>null\<close> nor \<open>undefined\<close> (for those the
  callers raise the \<open>TypeError\<close>).\<close>

fun getProp :: "node \<Rightarrow> string \<Rightarrow> node" where
  "getProp (JObj kvs) k = (case map_of kvs k of Some v \<Rightarrow> v | None \<Rightarrow> JUndefined)"
| "getProp (JArr xs) k =
     (if k = ''length'' then JNum (int (length xs))
      else (case parseIndex k of
              Some i \<Rightarrow> (if i < length xs then xs ! i else JUndefined)
            | None \<Rightarrow> JUndefined))"
| "getProp (JStr s) k =
     (if k = ''length'' then JNum (int (length s))
      else (case parseIndex k of
              Some i \<Rightarrow> (if i < length s then JStr [s ! i] else JUndefined)
            | None \<Rightarrow> JUndefined))"
| "getProp (JTag t d) k = (if k = ''data'' then d else JUndefined)"
| "getProp v k = JUndefined"

text \<open>\<open>_.has(v, k)\<close>: an own property.\<close>

fun isString :: "node \<Rightarrow> bool" where
  "isString (JStr s) = True"
| "isString v = False"

definition has :: "node \<Rightarrow> string \<Rightarrow> bool" where
  "has v k = (k \<in> set (keys v) \<or> ((isArray v \<or> isString v) \<and> k = ''length''))"

text \<open>\<open>obj[k] = v\<close> on an object: the property keeps its place when it exists.\<close>

fun assoc_set :: "string \<Rightarrow> node \<Rightarrow> (string \<times> node) list \<Rightarrow> (string \<times> node) list" where
  "assoc_set k v [] = [(k, v)]"
| "assoc_set k v ((k', v') # kvs) =
     (if k = k' then (k, v) # kvs else (k', v') # assoc_set k v kvs)"

text \<open>\<open>delete obj[k]\<close>\<close>

definition assoc_delete :: "string \<Rightarrow> (string \<times> node) list \<Rightarrow> (string \<times> node) list" where
  "assoc_delete k kvs = filter (\<lambda>(k', v). k' \<noteq> k) kvs"

text \<open>\<open>_.fromPairs\<close>: a later pair with the same key overwrites.\<close>

definition fromPairs :: "(string \<times> node) list \<Rightarrow> node" where
  "fromPairs ps = JObj (foldl (\<lambda>acc (k, v). assoc_set k v acc) [] ps)"

text \<open>\<open>String(v)\<close>, which a template literal and a computed property key apply.\<close>

fun joinComma :: "string list \<Rightarrow> string" where
  "joinComma [] = []"
| "joinComma [s] = s"
| "joinComma (s # t # ss) = s @ '','' @ joinComma (t # ss)"

fun jsToString :: "node \<Rightarrow> string" where
  "jsToString JUndefined = ''undefined''"
| "jsToString JNull = ''null''"
| "jsToString (JBool b) = (if b then ''true'' else ''false'')"
| "jsToString (JNum n) = showInt n"
| "jsToString (JStr s) = s"
| "jsToString (JDate di ds) = ds"
| "jsToString (JArr xs) = joinComma (map (\<lambda>x. if nullish x then [] else jsToString x) xs)"
| "jsToString (JObj kvs) = ''[object Object]''"
| "jsToString (JTag t d) = ''[object Object]''"

text \<open>
  \<open>SameValueZero\<close>, the comparison of \<open>_.includes\<close>: primitives by value, objects by
  identity. Two objects the model compares are never the same object, so objects are
  never equal.
\<close>

fun sameValueZero :: "node \<Rightarrow> node \<Rightarrow> bool" where
  "sameValueZero JUndefined w = (w = JUndefined)"
| "sameValueZero JNull w = (w = JNull)"
| "sameValueZero (JBool b) w = (w = JBool b)"
| "sameValueZero (JNum n) w = (w = JNum n)"
| "sameValueZero (JStr s) w = (w = JStr s)"
| "sameValueZero v w = False"

text \<open>\<open>_.includes(collection, value)\<close>: the elements of an array, the values of an
  object, the substrings of a string.\<close>

fun lodashIncludes :: "node \<Rightarrow> node \<Rightarrow> bool" where
  "lodashIncludes (JStr s) v = includesStr s (jsToString v)"
| "lodashIncludes c v = list_ex (\<lambda>x. sameValueZero x v) (objValues c)"

text \<open>\<open>_.get(object, path)\<close> for a path given as an array of keys.\<close>

fun baseGet :: "node \<Rightarrow> string list \<Rightarrow> node" where
  "baseGet v [] = v"
| "baseGet v (k # ks) = (if nullish v then JUndefined else baseGet (getProp v k) ks)"

definition lodashGet :: "node \<Rightarrow> string list \<Rightarrow> node" where
  "lodashGet v path = (if path = [] then JUndefined else baseGet v path)"

text \<open>\<open>_.omit(object, [k])\<close>\<close>

definition omit :: "node \<Rightarrow> string \<Rightarrow> node" where
  "omit v k = JObj (assoc_delete k (toPairs v))"

text \<open>\<open>_.extend(object, source)\<close> for an object as the destination: the source's
  properties are assigned one by one.\<close>

definition lodashExtend :: "(string \<times> node) list \<Rightarrow> node \<Rightarrow> (string \<times> node) list" where
  "lodashExtend kvs source = foldl (\<lambda>acc (k, v). assoc_set k v acc) kvs (toPairs source)"

text \<open>\<open>_.isEmpty\<close>\<close>

fun isEmpty :: "node \<Rightarrow> bool" where
  "isEmpty (JObj kvs) = (kvs = [])"
| "isEmpty (JArr xs) = (xs = [])"
| "isEmpty (JStr s) = (s = [])"
| "isEmpty (JTag t d) = False"
| "isEmpty v = True"

subsection \<open>\<open>_.merge\<close>\<close>

text \<open>
  \<open>_.merge(object, ...sources)\<close> of lodash 4.17: the properties of each truthy source
  are merged into the destination in turn. A property whose source value is an array
  or a plain object is merged recursively into the destination's value (into a fresh
  array or object when the destination holds none); any other value is assigned,
  \<open>undefined\<close> only where the destination has no such property. The result is \<open>None\<close>
  where the destination would be an array, a date or a tag instance that gains named
  properties, which \<open>node\<close> cannot hold.
\<close>

text \<open>\<open>object[key] = value\<close> on an object or an array.\<close>

fun setProp :: "node \<Rightarrow> string \<Rightarrow> node \<Rightarrow> node option" where
  "setProp (JObj kvs) k v = Some (JObj (assoc_set k v kvs))"
| "setProp (JArr xs) k v =
     (case parseIndex k of
        Some i \<Rightarrow>
          Some (JArr (if i < length xs then xs[i := v]
                      else xs @ replicate (i - length xs) JUndefined @ [v]))
      | None \<Rightarrow> None)"
| "setProp obj k v = None"

text \<open>\<open>key in object\<close>\<close>

fun hasKeyIn :: "node \<Rightarrow> string \<Rightarrow> bool" where
  "hasKeyIn (JObj kvs) k = (k \<in> set (map fst kvs))"
| "hasKeyIn (JArr xs) k =
     (k = ''length'' \<or> (case parseIndex k of Some i \<Rightarrow> i < length xs | None \<Rightarrow> False))"
| "hasKeyIn obj k = False"

definition assignMergeValue :: "node \<Rightarrow> string \<Rightarrow> node \<Rightarrow> node option" where
  "assignMergeValue obj k v =
     (if v = JUndefined \<and> hasKeyIn obj k then Some obj else setProp obj k v)"

text \<open>\<open>isArrayLikeObject(v)\<close> and \<open>copyArray(v)\<close>: an object with a \<open>length\<close>.\<close>

definition arrayLikeLength :: "node \<Rightarrow> nat option" where
  "arrayLikeLength v =
     (case v of
        JObj kvs \<Rightarrow> (case map_of kvs ''length'' of
                      Some (JNum n) \<Rightarrow> (if 0 \<le> n then Some (nat n) else None)
                    | _ \<Rightarrow> None)
      | _ \<Rightarrow> None)"

definition copyArray :: "node \<Rightarrow> nat \<Rightarrow> node" where
  "copyArray v n = JArr (map (\<lambda>i. getProp v (showNat i)) [0 ..< n])"

text \<open>The destination \<open>baseMergeDeep\<close> merges a source array or object into.\<close>

definition mergeTarget :: "node \<Rightarrow> node \<Rightarrow> node" where
  "mergeTarget objValue srcValue =
     (if isArray srcValue then
        (if isArray objValue then objValue
         else (case arrayLikeLength objValue of
                 Some n \<Rightarrow> copyArray objValue n
               | None \<Rightarrow> JArr []))
      else (if isObject objValue then objValue else JObj []))"

fun baseMerge :: "node \<Rightarrow> node \<Rightarrow> node option"
  and mergePairs :: "node \<Rightarrow> (string \<times> node) list \<Rightarrow> node option"
  and mergeElems :: "node \<Rightarrow> nat \<Rightarrow> node list \<Rightarrow> node option"
  and mergeValue :: "node \<Rightarrow> string \<Rightarrow> node \<Rightarrow> node option"
where
  "baseMerge obj (JObj kvs) = mergePairs obj kvs"
| "baseMerge obj (JArr xs) = mergeElems obj 0 xs"
| "baseMerge obj (JTag t d) = None"
| "baseMerge obj (JDate di ds) = Some obj"
| "baseMerge obj (JStr s) = Some obj"
| "baseMerge obj (JNum n) = Some obj"
| "baseMerge obj (JBool b) = Some obj"
| "baseMerge obj JNull = Some obj"
| "baseMerge obj JUndefined = Some obj"
| "mergePairs obj [] = Some obj"
| "mergePairs obj (kv # kvs) =
     (case mergeValue obj (fst kv) (snd kv) of
        None \<Rightarrow> None
      | Some obj' \<Rightarrow> mergePairs obj' kvs)"
| "mergeElems obj i [] = Some obj"
| "mergeElems obj i (x # xs) =
     (case mergeValue obj (showNat i) x of
        None \<Rightarrow> None
      | Some obj' \<Rightarrow> mergeElems obj' (Suc i) xs)"
| "mergeValue obj k (JObj kvs) =
     (case mergeTarget (getProp obj k) (JObj kvs) of
        JObj okvs \<Rightarrow> (case mergePairs (JObj okvs) kvs of
                        None \<Rightarrow> None
                      | Some v \<Rightarrow> assignMergeValue obj k v)
      | JArr oxs \<Rightarrow> (case mergePairs (JArr oxs) kvs of
                       None \<Rightarrow> None
                     | Some v \<Rightarrow> assignMergeValue obj k v)
      | _ \<Rightarrow> None)"
| "mergeValue obj k (JArr xs) =
     (case mergeElems (mergeTarget (getProp obj k) (JArr xs)) 0 xs of
        None \<Rightarrow> None
      | Some v \<Rightarrow> assignMergeValue obj k v)"
| "mergeValue obj k (JTag t d) = assignMergeValue obj k (JTag t d)"
| "mergeValue obj k (JDate di ds) = assignMergeValue obj k (JDate di ds)"
| "mergeValue obj k (JStr s) = assignMergeValue obj k (JStr s)"
| "mergeValue obj k (JNum n) = assignMergeValue obj k (JNum n)"
| "mergeValue obj k (JBool b) = assignMergeValue obj k (JBool b)"
| "mergeValue obj k JNull = assignMergeValue obj k JNull"
| "mergeValue obj k JUndefined = assignMergeValue obj k JUndefined"

text \<open>One source of \<open>_.merge\<close>: a falsy source is skipped, the characters of a string
  are its properties.\<close>

definition mergeSource :: "node \<Rightarrow> node \<Rightarrow> node option" where
  "mergeSource obj source =
     (if \<not> truthy source then Some obj
      else (case source of
              JStr s \<Rightarrow> mergePairs obj (toPairs (JStr s))
            | _ \<Rightarrow> baseMerge obj source))"

fun lodashMerge :: "node \<Rightarrow> node list \<Rightarrow> node option" where
  "lodashMerge obj [] = Some obj"
| "lodashMerge obj (source # sources) =
     (case mergeSource obj source of
        None \<Rightarrow> None
      | Some obj' \<Rightarrow> lodashMerge obj' sources)"

section \<open>The tree walker\<close>

subsection \<open>Results, environments and the libraries the walker calls\<close>

definition bindE :: "error + 'a \<Rightarrow> ('a \<Rightarrow> error + 'b) \<Rightarrow> error + 'b" where
  "bindE m f = (case m of Inl e \<Rightarrow> Inl e | Inr x \<Rightarrow> f x)"

text \<open>A library call whose result the model cannot hold.\<close>

definition modelled :: "string \<Rightarrow> 'a option \<Rightarrow> error + 'a" where
  "modelled what r = (case r of None \<Rightarrow> Inl (Unmodelled what) | Some x \<Rightarrow> Inr x)"

text \<open>A loop whose body may throw and which threads a state.\<close>

fun mapM :: "('a \<Rightarrow> 's \<Rightarrow> error + ('b \<times> 's)) \<Rightarrow> 'a list \<Rightarrow> 's \<Rightarrow> error + ('b list \<times> 's)" where
  "mapM f [] s = Inr ([], s)"
| "mapM f (x # xs) s =
     (case f x s of
        Inl e \<Rightarrow> Inl e
      | Inr (y, s1) \<Rightarrow>
          (case mapM f xs s1 of
             Inl e \<Rightarrow> Inl e
           | Inr (ys, s2) \<Rightarrow> Inr (y # ys, s2)))"

fun foldM :: "('a \<Rightarrow> 's \<Rightarrow> error + 's) \<Rightarrow> 'a list \<Rightarrow> 's \<Rightarrow> error + 's" where
  "foldM f [] s = Inr s"
| "foldM f (x # xs) s = (case f x s of Inl e \<Rightarrow> Inl e | Inr s1 \<Rightarrow> foldM f xs s1)"

text \<open>
  The libraries and the machine the walker calls, as parameters: the string-template
  engine (\<open>handlebars.compile(s, {noEscape, strict})(env)\<close>, \<open>None\<close> when it throws),
  the YAML codec of \<open>./yaml\<close> (\<open>dump\<close> and \<open>loadString\<close>), the JSON-schema validator
  (\<open>tv4.validateResult(v, schema).valid\<close>), the regular expressions
  (whether \<open>new RegExp(p)\<close> accepts the pattern, and \<open>s.match\<close>),
  \<open>os.hostname()\<close>, \<open>os.userInfo().username\<close> and the SHA-256 of \<open>crypto\<close>.
\<close>

record externals =
  handlebars :: "string \<Rightarrow> node \<Rightarrow> string option"
  yamlDump :: "node \<Rightarrow> string option"
  yamlLoadString :: "node \<Rightarrow> string \<Rightarrow> node option"
  tv4Valid :: "node \<Rightarrow> node \<Rightarrow> bool"
  regexValid :: "string \<Rightarrow> bool"
  regexMatch :: "string \<Rightarrow> string \<Rightarrow> bool"
  hostname :: string
  username :: string
  sha256Digest :: "string \<Rightarrow> string"

definition interpolateHandlebarsString ::
  "externals \<Rightarrow> string \<Rightarrow> node \<Rightarrow> string \<Rightarrow> error + string" where
  "interpolateHandlebarsString ext templateString env errorContext =
     (case handlebars ext templateString env of
        None \<Rightarrow> Inl (StringTemplateError errorContext templateString)
      | Some r \<Rightarrow> Inr r)"

text \<open>
  \<open>Env\<close> without its \<open>GlobalAccumulator\<close>: every environment of one run shares the
  one accumulator object and \<open>mapCustomResourceToGlobalSections\<close> changes it in place,
  so the walker takes the accumulator as a state and returns it. A stack frame is
  \<open>(location, path)\<close>.
\<close>

type_synonym accum = "(string \<times> node) list"

record Env =
  envValues :: node
  Stack :: "(node \<times> string) list"

definition mkSubEnv :: "Env \<Rightarrow> node \<Rightarrow> node \<times> string \<Rightarrow> error + Env" where
  "mkSubEnv env vals frame =
     (if truthy (fst frame) then
        Inr \<lparr>envValues = vals, Stack = Stack env @ [frame]\<rparr>
      else if Stack env = [] then Inl (TypeError ''env.Stack[env.Stack.length-1].location'')
      else Inr \<lparr>envValues = vals, Stack = Stack env @ [(fst (last (Stack env)), snd frame)]\<rparr>)"

definition lookupInEnv :: "node \<Rightarrow> string \<Rightarrow> Env \<Rightarrow> error + node" where
  "lookupInEnv key path env =
     (case key of
        JStr k \<Rightarrow>
          (case getProp (envValues env) k of
             JUndefined \<Rightarrow> Inl (CouldNotFind k path)
           | res \<Rightarrow> Inr res)
      | _ \<Rightarrow> Inl (InvalidLookupKey path))"

definition appendPath :: "string \<Rightarrow> string \<Rightarrow> string" where
  "appendPath rootPath suffix = (if rootPath \<noteq> [] then rootPath @ ''.'' @ suffix else suffix)"

definition GlobalSections :: "string list" where
  "GlobalSections =
     [''Parameters'', ''Metadata'', ''Mappings'', ''Conditions'', ''Transform'', ''Outputs'']"

text \<open>
  \<open>_.merge(env.GlobalAccumulator[section], source)\<close> in
  \<open>mapCustomResourceToGlobalSections\<close>: an accumulator section that is an object is
  merged in place; for a missing one lodash merges into a fresh object nobody keeps.
\<close>

definition mergeIntoAccumulator :: "accum \<Rightarrow> string \<Rightarrow> node \<Rightarrow> error + accum" where
  "mergeIntoAccumulator acc section source =
     (case getProp (JObj acc) section of
        JObj kvs \<Rightarrow>
          bindE (modelled ''_.merge'' (lodashMerge (JObj kvs) [source]))
            (\<lambda>merged. Inr (assoc_set section merged acc))
      | JArr xs \<Rightarrow>
          bindE (modelled ''_.merge'' (lodashMerge (JArr xs) [source]))
            (\<lambda>merged. Inr (assoc_set section merged acc))
      | JTag t d \<Rightarrow> Inl (Unmodelled ''_.merge'')
      | JDate di ds \<Rightarrow> Inl (Unmodelled ''_.merge'')
      | _ \<Rightarrow> Inr acc)"

text \<open>The inner loop of \<open>visitMapNode\<close>: \<open>for (const k2 in sub)\<close>.\<close>

definition mergeSub :: "string \<Rightarrow> (string \<times> node) list \<Rightarrow> node \<Rightarrow> error + (string \<times> node) list" where
  "mergeSub path res sub =
     foldM (\<lambda>(k2, v) res.
              if k2 \<in> set (map fst res) then Inl (MergeKeyPresent k2 path)
              else Inr (assoc_set k2 v res))
       (toPairs sub) res"

text \<open>\<open>_flatten = (arrs) => [].concat.apply([], arrs)\<close>: the arguments of \<open>concat\<close> are
  the entries of \<open>arrs\<close>, and \<open>concat\<close> spreads those that are arrays.\<close>

definition spread :: "node \<Rightarrow> node list" where
  "spread v = (case v of JArr ys \<Rightarrow> ys | _ \<Rightarrow> [v])"

definition flatten :: "node \<Rightarrow> error + node" where
  "flatten arrs =
     (case arrs of
        JArr xs \<Rightarrow> Inr (JArr (concat (map spread xs)))
      | JObj kvs \<Rightarrow>
          (case map_of kvs ''length'' of
             None \<Rightarrow> Inr (JArr [])
           | Some (JNum n) \<Rightarrow>
               Inr (JArr (concat (map (\<lambda>i. spread (getProp arrs (showNat i))) [0 ..< nat n])))
           | Some l \<Rightarrow> Inl (Unmodelled ''an array-like object''))
      | JStr s \<Rightarrow> Inl (TypeError ''CreateListFromArrayLike called on non-object'')
      | JNum n \<Rightarrow> Inl (TypeError ''CreateListFromArrayLike called on non-object'')
      | JBool b \<Rightarrow> Inl (TypeError ''CreateListFromArrayLike called on non-object'')
      | _ \<Rightarrow> Inr (JArr []))"

text \<open>\<open>_liftKVPairs = (objects) => _.fromPairs(_.map(objects, ({key, value}) => [key, value]))\<close>\<close>

definition liftKVPairs :: "node \<Rightarrow> error + node" where
  "liftKVPairs objects =
     (if list_ex nullish (objValues objects) then Inl (TypeError ''({key, value})'')
      else Inr (fromPairs (map (\<lambda>v. (jsToString (getProp v ''key''), getProp v ''value''))
                             (objValues objects))))"

text \<open>The entries \<open>_.map(collection, (value, index) => ...)\<close> visits: the index is a
  number for an array or a string and the key for an object.\<close>

fun mapEntries :: "node \<Rightarrow> (node \<times> node) list" where
  "mapEntries (JArr xs) = map (\<lambda>(i, x). (JNum (int i), x)) (indexed xs)"
| "mapEntries (JStr s) = map (\<lambda>(i, c). (JNum (int i), JStr [c])) (indexed s)"
| "mapEntries v = map (\<lambda>(k, x). (JStr k, x)) (toPairs v)"

text \<open>\<open>resource.Type.indexOf(p) === 0\<close> for a truthy \<open>resource.Type\<close>.\<close>

definition indexOfIsZero :: "node \<Rightarrow> string \<Rightarrow> error + bool" where
  "indexOfIsZero v p =
     (case v of
        JStr s \<Rightarrow> Inr (startsWith s p)
      | JArr xs \<Rightarrow> Inr (xs \<noteq> [] \<and> hd xs = JStr p)
      | _ \<Rightarrow> Inl (TypeError ''indexOf is not a function''))"

text \<open>The checks of one declared parameter in \<open>visitResourceNode\<close>
  (\<open>_.forEach(template.$params, (param) => ...)\<close>).\<close>

definition validateParam :: "externals \<Rightarrow> string \<Rightarrow> node \<Rightarrow> node \<Rightarrow> error + unit" where
  "validateParam ext name mergedParams param =
     (let paramName = jsToString (getProp param ''Name'');
          paramValue = getProp mergedParams paramName
      in if paramValue = JUndefined then Inl (MissingRequiredParameter paramName name)
         else if truthy (getProp param ''Schema'') then
           (if \<not> isObject (getProp param ''Schema'') then Inl (InvalidSchema paramName name)
            else if \<not> tv4Valid ext paramValue (getProp param ''Schema'') then
              Inl (ParameterValidation paramName name)
            else Inr ())
         else if truthy (getProp param ''AllowedValues'') then
           (if \<not> lodashIncludes (getProp param ''AllowedValues'') paramValue then
              Inl (ParameterValidation paramName name)
            else Inr ())
         else if truthy (getProp param ''AllowedPattern'') then
           (let pattern = jsToString (getProp param ''AllowedPattern'')
            in if \<not> regexValid ext pattern then Inl (TypeError ''new RegExp'')
               else (case paramValue of
                       JStr s \<Rightarrow>
                         (if regexMatch ext pattern s then Inr ()
                          else Inl (InvalidValue paramName name))
                     | _ \<Rightarrow> Inl (InvalidValue paramName name)))
         else Inr ())"

definition visitStringNode :: "externals \<Rightarrow> string \<Rightarrow> string \<Rightarrow> Env \<Rightarrow> error + node" where
  "visitStringNode ext s path env =
     (if hasMustache s then
        bindE (interpolateHandlebarsString ext s (envValues env) path) (\<lambda>r. Inr (JStr r))
      else Inr (JStr s))"

subsection \<open>\<open>visitNode\<close> and the functions it calls\<close>

text \<open>
  The functions of \<open>index.ts\<close> from \<open>mapCustomResourceToGlobalSections\<close> to
  \<open>visitNode\<close> call one another, always through \<open>visitNode\<close>. Each of them is
  written here with the walker it calls for the nested nodes as its first argument
  \<open>visit\<close> (standing for \<open>visitNode\<close> with the externals fixed); \<open>visitNode\<close> itself
  then recurses on the depth of nested \<open>visitNode\<close> calls that is left, and a call
  with none left is the \<open>RangeError\<close> of a used-up call stack. \<open>visitResource\<close> is the
  arrow function \<open>visitResourceNode\<close> maps over the resources; the tag functions take
  the tag's kind and its \<open>data\<close>.
\<close>

type_synonym walker = "node \<Rightarrow> string \<Rightarrow> Env \<Rightarrow> accum \<Rightarrow> error + (node \<times> accum)"

definition mapCustomResourceToGlobalSectionsWith ::
  "walker \<Rightarrow> node \<Rightarrow> string \<Rightarrow> Env \<Rightarrow> accum \<Rightarrow> error + accum" where
  "mapCustomResourceToGlobalSectionsWith visit resourceDoc path env acc =
     foldM
       (\<lambda>section acc.
          if truthy (getProp resourceDoc section) then
            bindE (visit (getProp resourceDoc section) (appendPath path section) env acc)
              (\<lambda>(visited, acc).
                 mergeIntoAccumulator acc section
                   (fromPairs
                      (map (\<lambda>(k, v). (jsToString (getProp (envValues env) ''Prefix'') @ k, v))
                         (toPairs visited))))
          else Inr acc)
       GlobalSections acc"

definition visitMapNodeWith :: "walker \<Rightarrow> node \<Rightarrow> string \<Rightarrow> Env \<Rightarrow> accum \<Rightarrow> error + (node \<times> accum)" where
  "visitMapNodeWith visit node path env acc =
     bindE
       (foldM
          (\<lambda>(k, v) (res, acc).
             if startsWith k ''$merge'' then
               bindE (visit v (appendPath path k) env acc) (\<lambda>(sub, acc).
               bindE (mergeSub path res sub) (\<lambda>res. Inr (res, acc)))
             else if k \<in> set [''$envValues'', ''$imports'', ''$params'', ''$location''] then
               Inr (res, acc)
             else
               bindE (visit v (appendPath path k) env acc) (\<lambda>(r, acc).
               Inr (assoc_set k r res, acc)))
          (toPairs node) ([], acc))
       (\<lambda>(res, acc). Inr (JObj res, acc))"

definition visitArrayWith :: "walker \<Rightarrow> node list \<Rightarrow> string \<Rightarrow> Env \<Rightarrow> accum \<Rightarrow> error + (node \<times> accum)" where
  "visitArrayWith visit xs path env acc =
     bindE
       (mapM (\<lambda>(i, v) acc. visit v (appendPath path (showNat i)) env acc) (indexed xs) acc)
       (\<lambda>(rs, acc). Inr (JArr rs, acc))"

definition visitResourceWith ::
  "walker \<Rightarrow> externals \<Rightarrow> string \<Rightarrow> node \<Rightarrow> string \<Rightarrow> Env \<Rightarrow> accum
     \<Rightarrow> error + ((string \<times> node) list \<times> accum)" where
  "visitResourceWith visit ext name resource path env acc =
     (if nullish resource then Inl (TypeError ''resource.Type'')
      else
        (let template = getProp (envValues env) (jsToString (getProp resource ''Type''))
         in if truthy template then
              (let prefix = (if getProp resource ''NamePrefix'' = JUndefined then JStr name
                             else getProp resource ''NamePrefix'');
                   stackFrame = (getProp template ''$location'', appendPath path name)
               in
               bindE (visit (getProp resource ''Overrides'')
                        (appendPath path (name @ ''.Overrides'')) env acc) (\<lambda>(overrides, acc).
               bindE (modelled ''_.merge'' (lodashMerge (JObj []) [template, overrides])) (\<lambda>resourceDoc.
               bindE (modelled ''_.merge''
                        (lodashMerge (JObj [(''Prefix'', prefix)]) [getProp template ''$envValues'']))
                     (\<lambda>defaultsEnvValues.
               bindE (mkSubEnv env defaultsEnvValues stackFrame) (\<lambda>paramDefaultsEnv.
               bindE (mapM (\<lambda>v acc.
                              if nullish v then Inl (TypeError ''v.Name'')
                              else
                                bindE (visit (getProp v ''Default'')
                                         (appendPath path
                                            (name @ ''.$params.'' @ jsToString (getProp v ''Name'')))
                                         paramDefaultsEnv acc) (\<lambda>(d, acc).
                                Inr ((jsToString (getProp v ''Name''), d), acc)))
                        (objValues (getProp template ''$params'')) acc) (\<lambda>(defaults, acc).
               let paramDefaults = fromPairs (filter (\<lambda>(k, v). v \<noteq> JUndefined) defaults)
               in
               bindE (visit (getProp resource ''Properties'')
                        (appendPath path (name @ ''.Properties'')) env acc) (\<lambda>(providedParams, acc).
               bindE (modelled ''_.merge'' (lodashMerge (JObj []) [paramDefaults, providedParams]))
                     (\<lambda>mergedParams.
               bindE (foldM (\<lambda>param u. validateParam ext name mergedParams param)
                        (objValues (getProp template ''$params'')) ()) (\<lambda>u.
               bindE (modelled ''_.merge''
                        (lodashMerge (JObj [(''Prefix'', prefix)])
                           [paramDefaults, providedParams, getProp template ''$envValues'']))
                     (\<lambda>subEnvValues.
               bindE (mkSubEnv env subEnvValues stackFrame) (\<lambda>subEnv.
               bindE (visit (getProp resourceDoc ''Resources'')
                        (appendPath path (name @ ''.Resources'')) subEnv acc) (\<lambda>(outputResources, acc).
               bindE (mapCustomResourceToGlobalSectionsWith visit resourceDoc path subEnv acc) (\<lambda>acc.
               Inr (map (\<lambda>(resname, val).
                           (jsToString (getProp (envValues subEnv) ''Prefix'') @ resname, val))
                      (toPairs outputResources), acc))))))))))))))
            else if \<not> truthy (getProp resource ''Type'') then
              Inl (InvalidResourceType path)
            else
              bindE (indexOfIsZero (getProp resource ''Type'') ''AWS'') (\<lambda>aws.
              bindE (if aws then Inr True
                     else indexOfIsZero (getProp resource ''Type'') ''Custom'') (\<lambda>native.
              if native then
                bindE (visit resource (appendPath path name) env acc) (\<lambda>(r, acc).
                Inr ([(name, r)], acc))
              else Inl (InvalidResourceType path)))))"

definition visitResourceNodeWith ::
  "walker \<Rightarrow> externals \<Rightarrow> node \<Rightarrow> string \<Rightarrow> Env \<Rightarrow> accum \<Rightarrow> error + (node \<times> accum)" where
  "visitResourceNodeWith visit ext node path env acc =
     bindE
       (mapM (\<lambda>(name, resource) acc. visitResourceWith visit ext name resource path env acc)
          (toPairs node) acc)
       (\<lambda>(pairs, acc). Inr (fromPairs (concat pairs), acc))"

definition visitExpandWith :: "walker \<Rightarrow> node \<Rightarrow> string \<Rightarrow> Env \<Rightarrow> accum \<Rightarrow> error + (node \<times> accum)" where
  "visitExpandWith visit data path env acc =
     (if \<not> (keys data = [''params'', ''template''] \<or> keys data = [''template'', ''params'']) then
        Inl InvalidExpandArguments
      else
        bindE (lookupInEnv (getProp data ''template'') path env) (\<lambda>template.
        bindE (modelled ''_.merge''
                 (lodashMerge (JObj []) [getProp data ''params'', envValues env])) (\<lambda>vals.
        bindE (mkSubEnv env vals (JUndefined, path)) (\<lambda>subEnv.
        (case template of
           JNull \<Rightarrow> Inl (TypeError ''delete template.$params'')
         | JObj kvs \<Rightarrow> visit (JObj (assoc_delete ''$params'' kvs)) path subEnv acc
         | _ \<Rightarrow> visit template path subEnv acc)))))"

text \<open>The body \<open>$map\<close> runs for one entry of \<open>items\<close>.\<close>

definition mapItemWith ::
  "walker \<Rightarrow> node \<Rightarrow> string \<Rightarrow> string \<Rightarrow> Env \<Rightarrow> node \<times> node \<Rightarrow> accum \<Rightarrow> error + (node \<times> accum)" where
  "mapItemWith visit template varName path env entry acc =
     (let idx = fst entry; item0 = snd entry; subPath = appendPath path (jsToString idx)
      in
      bindE (visit item0 subPath env acc) (\<lambda>(item, acc).
      bindE (modelled ''_.merge''
               (lodashMerge (JObj [(varName, item), (varName @ ''Idx'', idx)]) [envValues env]))
            (\<lambda>vals.
      bindE (mkSubEnv env vals (JUndefined, subPath)) (\<lambda>subEnv.
      visit template subPath subEnv acc))))"

text \<open>\<open>`${env.$envValues.Prefix || ''}${node.data}`\<close>\<close>

definition prefixedRef :: "Env \<Rightarrow> node \<Rightarrow> string" where
  "prefixedRef env data =
     (if truthy (getProp (envValues env) ''Prefix'')
      then jsToString (getProp (envValues env) ''Prefix'') else [])
     @ jsToString data"

definition visitYamlTagNodeWith ::
  "walker \<Rightarrow> externals \<Rightarrow> tagKind \<Rightarrow> node \<Rightarrow> string \<Rightarrow> Env \<Rightarrow> accum \<Rightarrow> error + (node \<times> accum)" where
  "visitYamlTagNodeWith visit ext kind data path env acc =
     (case kind of
        TagInclude \<Rightarrow>
          (case data of
             JStr s \<Rightarrow>
               (if includesStr s ''.'' then
                  (let key = hd (splitDots s); selector = tl (splitDots s)
                   in if \<not> has (envValues env) key then Inl (CouldNotFind key path)
                      else (case lodashGet (getProp (envValues env) key) selector of
                              JUndefined \<Rightarrow> Inl (CouldNotFindPath selector key path)
                            | lookupRes \<Rightarrow> visit lookupRes path env acc))
                else
                  bindE (lookupInEnv data path env) (\<lambda>res. visit res path env acc))
           | JArr xs \<Rightarrow>
               (if JStr ''.'' \<in> set xs then Inl (TypeError ''node.data.split is not a function'')
                else bindE (lookupInEnv data path env) (\<lambda>res. visit res path env acc))
           | _ \<Rightarrow> Inl (TypeError ''node.data.indexOf is not a function''))
      | TagExpand \<Rightarrow> visitExpandWith visit data path env acc
      | TagEscape \<Rightarrow> Inr (data, acc)
      | TagString \<Rightarrow>
          bindE (visit (case data of JArr [x] \<Rightarrow> x | _ \<Rightarrow> data) path env acc)
            (\<lambda>(r, acc).
               (case yamlDump ext r of
                  None \<Rightarrow> Inl (YamlError path)
                | Some str \<Rightarrow> Inr (JStr str, acc)))
      | TagParseYaml \<Rightarrow>
          bindE (visit data path env acc) (\<lambda>(r, acc).
            (case yamlLoadString ext r path of
               None \<Rightarrow> Inl (YamlError path)
             | Some doc \<Rightarrow> visit doc path env acc))
      | TagLet \<Rightarrow>
          bindE (visit (omit data ''in'') path env acc) (\<lambda>(bindings, acc).
          bindE (modelled ''_.merge'' (lodashMerge (JObj []) [envValues env, bindings])) (\<lambda>vals.
          bindE (mkSubEnv env vals (JUndefined, path)) (\<lambda>subEnv.
          if nullish data then Inl (TypeError ''node.data.in'')
          else visit (getProp data ''in'') path subEnv acc)))
      | TagMap \<Rightarrow>
          (if nullish data then Inl (TypeError ''node.data.template'')
           else
             (let template = getProp data ''template'';
                  varName = jsToString (if truthy (getProp data ''var'') then getProp data ''var''
                                        else JStr ''item'')
              in
              bindE (mapM (mapItemWith visit template varName path env)
                       (mapEntries (getProp data ''items'')) acc)
                (\<lambda>(mapped, acc). visit (JArr mapped) path env acc)))
      | TagFlatten \<Rightarrow>
          (if \<not> isArray data \<and> list_all isArray (objValues data) then
             Inl (InvalidFlattenArgument path)
           else bindE (flatten data) (\<lambda>flat. visit flat path env acc))
      | TagConcatMap \<Rightarrow>
          bindE (visit (JTag TagMap data) path env acc) (\<lambda>(r, acc).
          bindE (flatten r) (\<lambda>flat. Inr (flat, acc)))
      | TagMapListToHash \<Rightarrow>
          bindE (visit (JTag TagMap data) path env acc) (\<lambda>(r, acc).
          bindE (liftKVPairs r) (\<lambda>lifted. Inr (lifted, acc)))
      | TagFromPairs \<Rightarrow>
          bindE (liftKVPairs data) (\<lambda>lifted. visit lifted path env acc)
      | TagRef \<Rightarrow>
          (case data of
             JStr s \<Rightarrow>
               (if startsWith s ''AWS:'' then Inr (JTag TagRef data, acc)
                else Inr (JTag TagRef (JStr (prefixedRef env data)), acc))
           | _ \<Rightarrow> Inr (JTag TagRef (JStr (prefixedRef env data)), acc))
      | TagOther t \<Rightarrow>
          bindE (visit data path env acc) (\<lambda>(r, acc). Inr (JTag (TagOther t) r, acc)))"

definition visitImportedDocWith :: "walker \<Rightarrow> node \<Rightarrow> string \<Rightarrow> Env \<Rightarrow> accum \<Rightarrow> error + (node \<times> accum)" where
  "visitImportedDocWith visit node path env acc =
     (let stackFrame = (getProp node ''$location'', path);
          pairs = toPairs (getProp node ''$envValues'');
          nonTemplates = fromPairs (filter (\<lambda>(k, v). \<not> has v ''$params'') pairs);
          templates = fromPairs (filter (\<lambda>(k, v). has v ''$params'') pairs)
      in
      bindE (mkSubEnv env (getProp node ''$envValues'') stackFrame) (\<lambda>subEnv0.
      bindE (visit nonTemplates path subEnv0 acc) (\<lambda>(visited, acc).
      bindE (modelled ''_.merge'' (lodashMerge (JObj []) [visited, templates])) (\<lambda>processedEnvValues.
      bindE (mkSubEnv env processedEnvValues stackFrame) (\<lambda>subEnv.
      visitMapNodeWith visit node path subEnv acc)))))"

primrec visitNode :: "nat \<Rightarrow> externals \<Rightarrow> node \<Rightarrow> string \<Rightarrow> Env \<Rightarrow> accum \<Rightarrow> error + (node \<times> accum)" where
  "visitNode 0 ext node path env acc = Inl StackOverflow"
| "visitNode (Suc n) ext node path env acc =
     (let currNode = lastSegment path
      in if currNode = ''Resources'' \<and> \<not> includesStr path ''Overrides'' then
           visitResourceNodeWith (visitNode n ext) ext node path env acc
         else if currNode = ''$envValues'' then Inl (ShouldNotReach path)
         else
           (case node of
              JTag kind data \<Rightarrow> visitYamlTagNodeWith (visitNode n ext) ext kind data path env acc
            | JArr xs \<Rightarrow> visitArrayWith (visitNode n ext) xs path env acc
            | JObj kvs \<Rightarrow>
                (if truthy (getProp node ''$params'') then Inl (TemplateNotExpanded path)
                 else if truthy (getProp node ''$envValues'') then
                   visitImportedDocWith (visitNode n ext) node path env acc
                 else visitMapNodeWith (visitNode n ext) node path env acc)
            | JDate di ds \<Rightarrow>
                (if currNode \<in> set [''Version'', ''AWSTemplateFormatVersion'']
                 then Inr (JStr (takeWhile (\<lambda>c. c \<noteq> CHR ''T'') di), acc)
                 else Inr (node, acc))
            | JStr s \<Rightarrow> bindE (visitStringNode ext s path env) (\<lambda>r. Inr (r, acc))
            | _ \<Rightarrow> Inr (node, acc)))"


definition visitYamlTagNode ::
  "nat \<Rightarrow> externals \<Rightarrow> tagKind \<Rightarrow> node \<Rightarrow> string \<Rightarrow> Env \<Rightarrow> accum \<Rightarrow> error + (node \<times> accum)" where
  "visitYamlTagNode n ext = visitYamlTagNodeWith (visitNode n ext) ext"

definition visitExpand :: "nat \<Rightarrow> externals \<Rightarrow> node \<Rightarrow> string \<Rightarrow> Env \<Rightarrow> accum \<Rightarrow> error + (node \<times> accum)" where
  "visitExpand n ext = visitExpandWith (visitNode n ext)"

section \<open>Loading the imports\<close>

text \<open>
  What the import loader returns (\<open>ImportData\<close>; its fields \<open>data\<close> and \<open>doc\<close> are
  \<open>importedData\<close> and \<open>importedDoc\<close> here). The loader is the parameter \<open>importLoader\<close>
  of the source; it answers a location and a base location with the import or an
  error, and every answer is a value of its own (no two imports share an object).
\<close>

record ImportData =
  importType :: string
  resolvedLocation :: string
  importedData :: string
  importedDoc :: node

type_synonym importLoader = "string \<Rightarrow> string \<Rightarrow> error + ImportData"

text \<open>\<open>importsAccum.push({from, imported, sha256Digest, key})\<close>\<close>

definition importRecord :: "externals \<Rightarrow> string \<Rightarrow> ImportData \<Rightarrow> string \<Rightarrow> node" where
  "importRecord ext baseLocation importData asKey =
     JObj [(''from'', JStr baseLocation),
           (''imported'', JStr (resolvedLocation importData)),
           (''sha256Digest'', JStr (sha256Digest ext (importedData importData))),
           (''key'', JStr asKey)]"

text \<open>
  \<open>if (_.isObject(importData.doc)) importData.doc.$location = loc\<close>. On an array, a
  date or a tag instance the assignment adds a named property, which \<open>node\<close> cannot
  hold.
\<close>

definition stampLocation :: "node \<Rightarrow> string \<Rightarrow> error + node" where
  "stampLocation d loc =
     (case d of
        JObj kvs \<Rightarrow> Inr (JObj (assoc_set ''$location'' (JStr loc) kvs))
      | JArr xs \<Rightarrow> Inl (Unmodelled ''$location on an array'')
      | JDate di ds \<Rightarrow> Inl (Unmodelled ''$location on a date'')
      | JTag t v \<Rightarrow> Inl (Unmodelled ''$location on a tag'')
      | _ \<Rightarrow> Inr d)"

text \<open>The loop \<open>for (const {Name} of doc.$params)\<close>: the values a truthy \<open>$params\<close>
  iterates over.\<close>

definition iterate :: "node \<Rightarrow> error + node list" where
  "iterate v =
     (case v of
        JArr xs \<Rightarrow> Inr xs
      | JStr s \<Rightarrow> Inr (map (\<lambda>c. JStr [c]) s)
      | _ \<Rightarrow> Inl (TypeError ''doc.$params is not iterable''))"

text \<open>
  \<open>loadImports(doc, baseLocation, importsAccum, importLoader)\<close> changes \<open>doc\<close> and
  \<open>importsAccum\<close> in place; here it takes the properties of \<open>doc\<close> and the log and
  returns both. An imported document that has imports or definitions of its own is
  loaded through the binding \<open>doc.$envValues[asKey]\<close>, which is what the in-place
  change of \<open>importData.doc\<close> amounts to.
\<close>

primrec loadImports ::
  "nat \<Rightarrow> externals \<Rightarrow> importLoader \<Rightarrow> (string \<times> node) list \<Rightarrow> string \<Rightarrow> node list
     \<Rightarrow> error + ((string \<times> node) list \<times> node list)" where
  "loadImports 0 ext importLoader doc baseLocation importsAccum = Inl ImportsNotLoaded"
| "loadImports (Suc n) ext importLoader doc baseLocation importsAccum =
     bindE
       (if truthy (getProp (JObj doc) ''$imports'') then
          (if \<not> isPlainObject (getProp (JObj doc) ''$imports'') then
             Inl (InvalidImports baseLocation)
           else
             foldM
               (\<lambda>(asKey, loc0) (envValues, importsAccum).
                  (case loc0 of
                     JStr l \<Rightarrow>
                       bindE (if hasMustache l then
                                interpolateHandlebarsString ext l (JObj envValues)
                                  (baseLocation @ '': '' @ asKey)
                              else Inr l) (\<lambda>loc.
                       bindE (importLoader loc baseLocation) (\<lambda>importData.
                       bindE (stampLocation (importedDoc importData) loc) (\<lambda>d.
                       let importsAccum = importsAccum @ [importRecord ext baseLocation importData asKey]
                       in
                       if lodashIncludes (JObj envValues) (JStr asKey) then
                         Inl (DuplicateImport asKey baseLocation)
                       else if nullish d then Inl (TypeError ''importData.doc.$imports'')
                       else if truthy (getProp d ''$imports'') \<or> truthy (getProp d ''$defs'') then
                         bindE (loadImports n ext importLoader (toPairs d)
                                  (resolvedLocation importData) importsAccum)
                           (\<lambda>(d, importsAccum). Inr (assoc_set asKey (JObj d) envValues, importsAccum))
                       else Inr (assoc_set asKey d envValues, importsAccum))))
                   | _ \<Rightarrow> Inl (TypeError ''loc.search is not a function'')))
               (toPairs (getProp (JObj doc) ''$imports'')) ([], importsAccum))
        else Inr ([], importsAccum)) (\<lambda>(envValues, importsAccum).
     bindE
       (if truthy (getProp (JObj doc) ''$defs'') then
          foldM
            (\<lambda>(key, v) envValues.
               if key \<in> set (map fst envValues) then Inl (DefCollision key baseLocation)
               else Inr (assoc_set key v envValues))
            (toPairs (getProp (JObj doc) ''$defs'')) envValues
        else Inr envValues) (\<lambda>envValues.
     bindE
       (if truthy (getProp (JObj doc) ''$params'') then
          bindE (iterate (getProp (JObj doc) ''$params'')) (\<lambda>params.
          foldM
            (\<lambda>param u.
               if nullish param then Inl (TypeError ''{Name}'')
               else if lodashIncludes (JArr (map JStr (map fst envValues))) (getProp param ''Name'')
               then Inl (ParamCollision (jsToString (getProp param ''Name'')) baseLocation)
               else Inr ())
            params ())
        else Inr ()) (\<lambda>u.
     Inr (assoc_set ''$envValues'' (JObj envValues) doc, importsAccum))))"

section \<open>The output\<close>

text \<open>The loop of \<open>transformPostImports\<close> over the global sections.\<close>

definition mergeGlobalSections :: "accum \<Rightarrow> (string \<times> node) list \<Rightarrow> error + (string \<times> node) list" where
  "mergeGlobalSections globalAccum output =
     foldM
       (\<lambda>sectionName output.
          if \<not> isEmpty (getProp (JObj globalAccum) sectionName) then
            bindE (modelled ''_.merge''
                     (lodashMerge (JObj [])
                        [getProp (JObj output) sectionName, getProp (JObj globalAccum) sectionName]))
              (\<lambda>merged. Inr (assoc_set sectionName merged output))
          else Inr output)
       GlobalSections output"

text \<open>The accumulator and the seed of the output \<open>transformPostImports\<close> starts from.\<close>

definition isCFNDoc :: "(string \<times> node) list \<Rightarrow> bool" where
  "isCFNDoc root =
     (truthy (getProp (JObj root) ''AWSTemplateFormatVersion'') \<or> truthy (getProp (JObj root) ''Resources''))"

definition initialAccum :: "externals \<Rightarrow> (string \<times> node) list \<Rightarrow> node list \<Rightarrow> accum" where
  "initialAccum ext root accumulatedImports =
     [(''Metadata'',
       JObj [(''iidy'',
              JObj [(''Host'', JStr (hostname ext)),
                    (''Imports'', JArr accumulatedImports),
                    (''User'', JStr (username ext))])])]
     @ (if isCFNDoc root then
          [(''Parameters'', JObj []), (''Conditions'', JObj []), (''Mappings'', JObj []),
           (''Outputs'', JObj [])]
        else [])"

definition seedOutput :: "(string \<times> node) list \<Rightarrow> (string \<times> node) list" where
  "seedOutput root =
     (if isCFNDoc root then [(''AWSTemplateFormatVersion'', JStr ''2010-09-09'')] else [])"

definition rootEnv :: "(string \<times> node) list \<Rightarrow> string \<Rightarrow> Env" where
  "rootEnv root rootDocLocation =
     \<lparr>envValues = (if truthy (getProp (JObj root) ''$envValues'')
                   then getProp (JObj root) ''$envValues'' else JObj []),
      Stack = [(JStr rootDocLocation, ''Root'')]\<rparr>"

definition transformPostImports ::
  "nat \<Rightarrow> externals \<Rightarrow> (string \<times> node) list \<Rightarrow> string \<Rightarrow> node list \<Rightarrow> error + (string \<times> node) list" where
  "transformPostImports n ext root rootDocLocation accumulatedImports =
     bindE (visitNode n ext (JObj root) ''Root'' (rootEnv root rootDocLocation)
              (initialAccum ext root accumulatedImports)) (\<lambda>(visited, globalAccum).
     bindE (if isCFNDoc root then mergeGlobalSections globalAccum (lodashExtend (seedOutput root) visited)
            else Inr (lodashExtend (seedOutput root) visited)) (\<lambda>output.
     Inr (assoc_delete ''$envValues'' (assoc_delete ''$defs'' (assoc_delete ''$imports'' output)))))"

text \<open>
  \<open>transform(root0, rootDocLocation, importLoader)\<close> for a root document that is a
  mapping, which the type \<open>ExtendedCfnDoc\<close> asks for. \<open>_.clone(root0)\<close> is a new object
  with the properties of \<open>root0\<close>.
\<close>

definition transform ::
  "nat \<Rightarrow> externals \<Rightarrow> importLoader \<Rightarrow> node \<Rightarrow> string \<Rightarrow> error + (string \<times> node) list" where
  "transform n ext importLoader root0 rootDocLocation =
     (case root0 of
        JObj kvs \<Rightarrow>
          bindE (loadImports n ext importLoader kvs rootDocLocation []) (\<lambda>(root, accumulatedImports).
          transformPostImports n ext root rootDocLocation accumulatedImports)
      | _ \<Rightarrow> Inl (Unmodelled ''a root document that is not a mapping''))"

section \<open>Predicates of the properties\<close>

text \<open>A path at which \<open>visitNode\<close> looks at the node itself: its last segment is
  neither \<open>Resources\<close> (outside an \<open>Overrides\<close> subtree) nor \<open>$envValues\<close>.\<close>

definition atNode :: "string \<Rightarrow> bool" where
  "atNode path =
     (\<not> (lastSegment path = ''Resources'' \<and> \<not> includesStr path ''Overrides'') \<and>
      lastSegment path \<noteq> ''$envValues'')"







section \<open>Objects with identity\<close>

text \<open>
  The document as JavaScript holds it: a value is a primitive or a reference to an
  object, and an object (a plain object, an array, a tag instance, a date) lives in a
  heap under its address. Two references are the same object when their addresses are
  equal. A new object takes the next free address.
\<close>

type_synonym addr = nat

datatype hval = HUndefined | HNull | HBool bool | HNum int | HStr string | HRef addr

datatype hobj =
    HObj "(string \<times> hval) list"
  | HArr "hval list"
  | HTag tagKind hval
  | HDate string string

type_synonym heap = "hobj list"

definition allocH :: "hobj \<Rightarrow> heap \<Rightarrow> hval \<times> heap" where
  "allocH ob h = (HRef (length h), h @ [ob])"

fun derefH :: "heap \<Rightarrow> hval \<Rightarrow> hobj option" where
  "derefH h (HRef a) = (if a < length h then Some (h ! a) else None)"
| "derefH h v = None"

text \<open>What the parser builds for a document: every object, array, tag instance and
  date of the tree is an object of its own.\<close>

fun allocNode :: "node \<Rightarrow> heap \<Rightarrow> hval \<times> heap"
  and allocNodes :: "node list \<Rightarrow> heap \<Rightarrow> hval list \<times> heap"
  and allocPairs :: "(string \<times> node) list \<Rightarrow> heap \<Rightarrow> (string \<times> hval) list \<times> heap"
where
  "allocNode JUndefined h = (HUndefined, h)"
| "allocNode JNull h = (HNull, h)"
| "allocNode (JBool b) h = (HBool b, h)"
| "allocNode (JNum n) h = (HNum n, h)"
| "allocNode (JStr s) h = (HStr s, h)"
| "allocNode (JDate di ds) h = allocH (HDate di ds) h"
| "allocNode (JArr xs) h = (case allocNodes xs h of (ys, h1) \<Rightarrow> allocH (HArr ys) h1)"
| "allocNode (JObj kvs) h = (case allocPairs kvs h of (kws, h1) \<Rightarrow> allocH (HObj kws) h1)"
| "allocNode (JTag t d) h = (case allocNode d h of (e, h1) \<Rightarrow> allocH (HTag t e) h1)"
| "allocNodes [] h = ([], h)"
| "allocNodes (x # xs) h =
     (case allocNode x h of (y, h1) \<Rightarrow>
      case allocNodes xs h1 of (ys, h2) \<Rightarrow> (y # ys, h2))"
| "allocPairs [] h = ([], h)"
| "allocPairs (kv # kvs) h =
     (case allocNode (snd kv) h of (w, h1) \<Rightarrow>
      case allocPairs kvs h1 of (kws, h2) \<Rightarrow> ((fst kv, w) # kws, h2))"

text \<open>The document a value stands for, read through the references, \<open>n\<close> objects
  deep at most.\<close>

primrec readBack :: "nat \<Rightarrow> heap \<Rightarrow> hval \<Rightarrow> node option" where
  "readBack 0 h v = None"
| "readBack (Suc n) h v =
     (case v of
        HUndefined \<Rightarrow> Some JUndefined
      | HNull \<Rightarrow> Some JNull
      | HBool b \<Rightarrow> Some (JBool b)
      | HNum i \<Rightarrow> Some (JNum i)
      | HStr s \<Rightarrow> Some (JStr s)
      | HRef a \<Rightarrow>
          (case derefH h v of
             None \<Rightarrow> None
           | Some (HObj kvs) \<Rightarrow>
               map_option JObj
                 (those (map (\<lambda>(k, x). map_option (Pair k) (readBack n h x)) kvs))
           | Some (HArr xs) \<Rightarrow> map_option JArr (those (map (readBack n h) xs))
           | Some (HTag t d) \<Rightarrow> map_option (JTag t) (readBack n h d)
           | Some (HDate di ds) \<Rightarrow> Some (JDate di ds)))"

text \<open>The whole of an acyclic value.\<close>

definition readAll :: "heap \<Rightarrow> hval \<Rightarrow> node option" where
  "readAll h v = readBack (Suc (length h)) h v"

subsection \<open>Properties of heap values\<close>

fun truthyH :: "hval \<Rightarrow> bool" where
  "truthyH HUndefined = False"
| "truthyH HNull = False"
| "truthyH (HBool b) = b"
| "truthyH (HNum n) = (n \<noteq> 0)"
| "truthyH (HStr s) = (s \<noteq> [])"
| "truthyH (HRef a) = True"

definition nullishH :: "hval \<Rightarrow> bool" where
  "nullishH v = (v = HUndefined \<or> v = HNull)"

text \<open>Own enumerable properties, in order, and \<open>v[k]\<close>.\<close>

definition toPairsH :: "heap \<Rightarrow> hval \<Rightarrow> (string \<times> hval) list" where
  "toPairsH h v =
     (case v of
        HStr s \<Rightarrow> map (\<lambda>(i, c). (showNat i, HStr [c])) (indexed s)
      | HRef a \<Rightarrow>
          (case derefH h v of
             Some (HObj kvs) \<Rightarrow> kvs
           | Some (HArr xs) \<Rightarrow> map (\<lambda>(i, x). (showNat i, x)) (indexed xs)
           | Some (HTag t d) \<Rightarrow> [(''data'', d)]
           | _ \<Rightarrow> [])
      | _ \<Rightarrow> [])"

definition keysH :: "heap \<Rightarrow> hval \<Rightarrow> string list" where
  "keysH h v = map fst (toPairsH h v)"

definition getPropH :: "heap \<Rightarrow> hval \<Rightarrow> string \<Rightarrow> hval" where
  "getPropH h v k =
     (case v of
        HStr s \<Rightarrow>
          (if k = ''length'' then HNum (int (length s))
           else (case parseIndex k of
                   Some i \<Rightarrow> (if i < length s then HStr [s ! i] else HUndefined)
                 | None \<Rightarrow> HUndefined))
      | HRef a \<Rightarrow>
          (case derefH h v of
             Some (HObj kvs) \<Rightarrow> (case map_of kvs k of Some x \<Rightarrow> x | None \<Rightarrow> HUndefined)
           | Some (HArr xs) \<Rightarrow>
               (if k = ''length'' then HNum (int (length xs))
                else (case parseIndex k of
                        Some i \<Rightarrow> (if i < length xs then xs ! i else HUndefined)
                      | None \<Rightarrow> HUndefined))
           | Some (HTag t d) \<Rightarrow> (if k = ''data'' then d else HUndefined)
           | _ \<Rightarrow> HUndefined)
      | _ \<Rightarrow> HUndefined)"

definition isArrayH :: "heap \<Rightarrow> hval \<Rightarrow> bool" where
  "isArrayH h v = (case derefH h v of Some (HArr xs) \<Rightarrow> True | _ \<Rightarrow> False)"

definition isPlainObjectH :: "heap \<Rightarrow> hval \<Rightarrow> bool" where
  "isPlainObjectH h v = (case derefH h v of Some (HObj kvs) \<Rightarrow> True | _ \<Rightarrow> False)"

definition isObjectH :: "hval \<Rightarrow> bool" where
  "isObjectH v = (case v of HRef a \<Rightarrow> True | _ \<Rightarrow> False)"

definition isStringH :: "hval \<Rightarrow> bool" where
  "isStringH v = (case v of HStr s \<Rightarrow> True | _ \<Rightarrow> False)"

text \<open>\<open>_.has(v, k)\<close>\<close>

definition hasH :: "heap \<Rightarrow> hval \<Rightarrow> string \<Rightarrow> bool" where
  "hasH h v k = (k \<in> set (keysH h v) \<or> ((isArrayH h v \<or> isStringH v) \<and> k = ''length''))"

text \<open>\<open>key in object\<close>\<close>

definition hasKeyInH :: "heap \<Rightarrow> hval \<Rightarrow> string \<Rightarrow> bool" where
  "hasKeyInH h v k =
     (case derefH h v of
        Some (HObj kvs) \<Rightarrow> k \<in> set (map fst kvs)
      | Some (HArr xs) \<Rightarrow>
          (k = ''length'' \<or> (case parseIndex k of Some i \<Rightarrow> i < length xs | None \<Rightarrow> False))
      | _ \<Rightarrow> False)"

text \<open>\<open>object[k] = x\<close>: the object at the address changes, for everyone who holds a
  reference to it. \<open>None\<close> where an array, a date or a tag instance would gain a named
  property.\<close>

fun assocSetH :: "string \<Rightarrow> hval \<Rightarrow> (string \<times> hval) list \<Rightarrow> (string \<times> hval) list" where
  "assocSetH k v [] = [(k, v)]"
| "assocSetH k v ((k', v') # kvs) =
     (if k = k' then (k, v) # kvs else (k', v') # assocSetH k v kvs)"

definition setPropH :: "heap \<Rightarrow> hval \<Rightarrow> string \<Rightarrow> hval \<Rightarrow> heap option" where
  "setPropH h object k x =
     (case object of
        HRef a \<Rightarrow>
          (case derefH h object of
             Some (HObj kvs) \<Rightarrow> Some (h[a := HObj (assocSetH k x kvs)])
           | Some (HArr xs) \<Rightarrow>
               (case parseIndex k of
                  Some i \<Rightarrow>
                    Some (h[a := HArr (if i < length xs then xs[i := x]
                                        else xs @ replicate (i - length xs) HUndefined @ [x])])
                | None \<Rightarrow> None)
           | _ \<Rightarrow> None)
      | _ \<Rightarrow> None)"

text \<open>\<open>delete object[k]\<close> on a plain object.\<close>

definition deletePropH :: "heap \<Rightarrow> hval \<Rightarrow> string \<Rightarrow> heap option" where
  "deletePropH h object k =
     (case object of
        HRef a \<Rightarrow>
          (case derefH h object of
             Some (HObj kvs) \<Rightarrow> Some (h[a := HObj (filter (\<lambda>(k', v). k' \<noteq> k) kvs)])
           | _ \<Rightarrow> None)
      | _ \<Rightarrow> None)"

subsection \<open>\<open>_.clone\<close> and \<open>_.merge\<close> on the heap\<close>

text \<open>\<open>_.clone(v)\<close>: a new object with the properties of \<open>v\<close>; the property values are
  the same references.\<close>

definition cloneH :: "heap \<Rightarrow> hval \<Rightarrow> hval \<times> heap" where
  "cloneH h v = (case derefH h v of Some ob \<Rightarrow> allocH ob h | None \<Rightarrow> (v, h))"

text \<open>
  \<open>assignMergeValue(object, key, value)\<close> of lodash 4.17: it assigns unless the property
  holds the value already, or the value is \<open>undefined\<close> and the key is there.
\<close>

definition assignMergeValueH :: "heap \<Rightarrow> hval \<Rightarrow> string \<Rightarrow> hval \<Rightarrow> heap option" where
  "assignMergeValueH h object key v =
     (if (v \<noteq> HUndefined \<and> getPropH h object key \<noteq> v) \<or>
         (v = HUndefined \<and> \<not> hasKeyInH h object key)
      then setPropH h object key v
      else Some h)"

text \<open>\<open>isArrayLikeObject(v)\<close>: an object with a \<open>length\<close>.\<close>

definition arrayLikeLengthH :: "heap \<Rightarrow> hval \<Rightarrow> nat option" where
  "arrayLikeLengthH h v =
     (case derefH h v of
        Some (HObj kvs) \<Rightarrow>
          (case map_of kvs ''length'' of
             Some (HNum n) \<Rightarrow> (if 0 \<le> n then Some (nat n) else None)
           | _ \<Rightarrow> None)
      | _ \<Rightarrow> None)"

text \<open>
  The destination \<open>baseMergeDeep\<close> merges a source array or plain object into: the
  value the destination holds under the key, itself and not a copy, when that is an
  array (for a source array) or any object (for a source object); a new array or
  object otherwise.
\<close>

definition mergeTargetH :: "heap \<Rightarrow> hval \<Rightarrow> hval \<Rightarrow> hval \<times> heap" where
  "mergeTargetH h objValue srcValue =
     (if isArrayH h srcValue then
        (if isArrayH h objValue then (objValue, h)
         else (case arrayLikeLengthH h objValue of
                 Some n \<Rightarrow> allocH (HArr (map (\<lambda>i. getPropH h objValue (showNat i)) [0 ..< n])) h
               | None \<Rightarrow> allocH (HArr []) h))
      else (if isObjectH objValue then (objValue, h) else allocH (HObj []) h))"

text \<open>
  \<open>baseMerge(object, source)\<close>: the properties of \<open>source\<close> are merged into the object
  \<open>object\<close> refers to, in place. \<open>n\<close> is the depth of nested objects that is left; a
  source that contains itself uses it up. A tag instance as the source has the
  properties of the absent module \<open>./yaml\<close>.
\<close>

primrec baseMergeH :: "nat \<Rightarrow> hval \<Rightarrow> hval \<Rightarrow> heap \<Rightarrow> error + heap" where
  "baseMergeH 0 object source h = Inl StackOverflow"
| "baseMergeH (Suc n) object source h =
     (if object = source then Inr h
      else
        (case derefH h source of
           Some (HTag t d) \<Rightarrow> Inl (Unmodelled ''_.merge of a tag instance'')
         | _ \<Rightarrow>
             foldM
               (\<lambda>key h.
                  let srcValue = getPropH h source key
                  in if isArrayH h srcValue \<or> isPlainObjectH h srcValue then
                       (case mergeTargetH h (getPropH h object key) srcValue of
                          (newValue, h) \<Rightarrow>
                            bindE (baseMergeH n newValue srcValue h) (\<lambda>h.
                            modelled ''_.merge'' (assignMergeValueH h object key newValue)))
                     else modelled ''_.merge'' (assignMergeValueH h object key srcValue))
               (keysH h source) h))"

text \<open>\<open>_.merge(object, ...sources)\<close>: a falsy source is skipped.\<close>

definition lodashMergeH :: "hval \<Rightarrow> hval list \<Rightarrow> heap \<Rightarrow> error + heap" where
  "lodashMergeH object sources h =
     foldM (\<lambda>source h. if truthyH source then baseMergeH (Suc (length h)) object source h
                        else Inr h)
       sources h"

text \<open>\<open>_.fromPairs(pairs)\<close> and \<open>_.extend(object, source)\<close>\<close>

definition fromPairsH :: "(string \<times> hval) list \<Rightarrow> heap \<Rightarrow> hval \<times> heap" where
  "fromPairsH ps h = allocH (HObj (foldl (\<lambda>acc (k, v). assocSetH k v acc) [] ps)) h"

definition lodashExtendH :: "hval \<Rightarrow> hval \<Rightarrow> heap \<Rightarrow> error + heap" where
  "lodashExtendH object source h =
     foldM (\<lambda>key h. modelled ''_.extend'' (setPropH h object key (getPropH h source key)))
       (keysH h source) h"

subsection \<open>The walker on the heap\<close>

text \<open>
  \<open>transform\<close> again, on documents whose objects have identity, to say which objects a
  run changes. The functions are those of the tree walker, with the heap as their
  state; of the tags they know \<open>$escape\<close> and \<open>$map\<close>, and they do not know the
  \<open>Resources\<close> sections and the CloudFormation documents: a run that gets there ends
  with \<open>Unmodelled\<close>.
\<close>

record EnvH =
  envValuesH :: hval
  StackH :: "(hval \<times> string) list"

definition mkSubEnvH :: "EnvH \<Rightarrow> hval \<Rightarrow> hval \<times> string \<Rightarrow> error + EnvH" where
  "mkSubEnvH env vals frame =
     (if truthyH (fst frame) then
        Inr \<lparr>envValuesH = vals, StackH = StackH env @ [frame]\<rparr>
      else if StackH env = [] then Inl (TypeError ''env.Stack[env.Stack.length-1].location'')
      else Inr \<lparr>envValuesH = vals, StackH = StackH env @ [(fst (last (StackH env)), snd frame)]\<rparr>)"

type_synonym walkerH = "hval \<Rightarrow> string \<Rightarrow> EnvH \<Rightarrow> heap \<Rightarrow> error + (hval \<times> heap)"

text \<open>\<open>visitMapNode\<close>: \<open>res\<close> is a new object.\<close>

definition visitMapNodeH :: "walkerH \<Rightarrow> hval \<Rightarrow> string \<Rightarrow> EnvH \<Rightarrow> heap \<Rightarrow> error + (hval \<times> heap)" where
  "visitMapNodeH visit node path env h =
     (case allocH (HObj []) h of
        (res, h) \<Rightarrow>
          bindE
            (foldM
               (\<lambda>k h.
                  if startsWith k ''$merge'' then
                    bindE (visit (getPropH h node k) (appendPath path k) env h) (\<lambda>(sub, h).
                    foldM
                      (\<lambda>k2 h.
                         if hasH h res k2 then Inl (MergeKeyPresent k2 path)
                         else modelled ''res[k2]'' (setPropH h res k2 (getPropH h sub k2)))
                      (keysH h sub) h)
                  else if k \<in> set [''$envValues'', ''$imports'', ''$params'', ''$location''] then
                    Inr h
                  else
                    bindE (visit (getPropH h node k) (appendPath path k) env h) (\<lambda>(r, h).
                    modelled ''res[k]'' (setPropH h res k r)))
               (keysH h node) h)
            (\<lambda>h. Inr (res, h)))"

text \<open>\<open>visitArray\<close>: \<open>_.map\<close> builds a new array.\<close>

definition visitArrayH :: "walkerH \<Rightarrow> hval \<Rightarrow> string \<Rightarrow> EnvH \<Rightarrow> heap \<Rightarrow> error + (hval \<times> heap)" where
  "visitArrayH visit node path env h =
     bindE
       (mapM (\<lambda>k h. visit (getPropH h node k) (appendPath path k) env h) (keysH h node) h)
       (\<lambda>(rs, h). Inr (allocH (HArr rs) h))"

text \<open>\<open>visitStringNode\<close>: the template engine reads the whole environment.\<close>

definition visitStringNodeH :: "externals \<Rightarrow> string \<Rightarrow> string \<Rightarrow> EnvH \<Rightarrow> heap \<Rightarrow> error + hval" where
  "visitStringNodeH ext s path env h =
     (if hasMustache s then
        bindE (modelled ''an environment that contains itself'' (readAll h (envValuesH env)))
          (\<lambda>vals.
        bindE (interpolateHandlebarsString ext s vals path) (\<lambda>r. Inr (HStr r)))
      else Inr (HStr s))"

text \<open>The body \<open>$map\<close> runs for one entry of \<open>items\<close>: the object literal
  \<open>{[varName]: item, [varName+'Idx']: idx}\<close> is the destination of \<open>_.merge\<close>, and it
  holds \<open>item\<close>, not a copy of it.\<close>

definition mapItemH ::
  "walkerH \<Rightarrow> hval \<Rightarrow> string \<Rightarrow> string \<Rightarrow> EnvH \<Rightarrow> hval \<Rightarrow> string \<Rightarrow> hval \<Rightarrow> heap
     \<Rightarrow> error + (hval \<times> heap)" where
  "mapItemH visit template varName path env idx idxString item0 h =
     (let subPath = appendPath path idxString
      in
      bindE (visit item0 subPath env h) (\<lambda>(item, h).
      (case allocH (HObj [(varName, item), (varName @ ''Idx'', idx)]) h of
         (vals, h) \<Rightarrow>
           bindE (lodashMergeH vals [envValuesH env] h) (\<lambda>h.
           bindE (mkSubEnvH env vals (HUndefined, subPath)) (\<lambda>subEnv.
           visit template subPath subEnv h)))))"

text \<open>The entries \<open>_.map(items, (item0, idx) => ...)\<close> visits: index, \<open>idx.toString()\<close>
  and value.\<close>

definition mapEntriesH :: "heap \<Rightarrow> hval \<Rightarrow> (hval \<times> string \<times> hval) list" where
  "mapEntriesH h items =
     (if isArrayH h items \<or> isStringH items then
        map (\<lambda>(i, kv). (HNum (int i), fst kv, snd kv)) (indexed (toPairsH h items))
      else map (\<lambda>(k, v). (HStr k, k, v)) (toPairsH h items))"

definition visitYamlTagNodeH ::
  "walkerH \<Rightarrow> tagKind \<Rightarrow> hval \<Rightarrow> string \<Rightarrow> EnvH \<Rightarrow> heap \<Rightarrow> error + (hval \<times> heap)" where
  "visitYamlTagNodeH visit kind data path env h =
     (case kind of
        TagEscape \<Rightarrow> Inr (data, h)
      | TagMap \<Rightarrow>
          (if nullishH data then Inl (TypeError ''node.data.template'')
           else
             (let template = getPropH h data ''template'';
                  var = (if truthyH (getPropH h data ''var'') then getPropH h data ''var''
                         else HStr ''item'')
              in
              (case var of
                 HStr varName \<Rightarrow>
                   bindE
                     (mapM (\<lambda>(idx, idxString, item0) h.
                              mapItemH visit template varName path env idx idxString item0 h)
                        (mapEntriesH h (getPropH h data ''items'')) h)
                     (\<lambda>(mapped, h).
                        (case allocH (HArr mapped) h of
                           (arr, h) \<Rightarrow> visit arr path env h))
               | _ \<Rightarrow> Inl (Unmodelled ''a variable name that is not a string''))))
      | _ \<Rightarrow> Inl (Unmodelled ''a tag other than $escape and $map on the heap''))"

text \<open>\<open>visitImportedDoc\<close>\<close>

definition visitImportedDocH :: "walkerH \<Rightarrow> hval \<Rightarrow> string \<Rightarrow> EnvH \<Rightarrow> heap \<Rightarrow> error + (hval \<times> heap)" where
  "visitImportedDocH visit node path env h =
     (let stackFrame = (getPropH h node ''$location'', path);
          pairs = toPairsH h (getPropH h node ''$envValues'')
      in
      bindE (mkSubEnvH env (getPropH h node ''$envValues'') stackFrame) (\<lambda>subEnv0.
      (case fromPairsH (filter (\<lambda>(k, v). \<not> hasH h v ''$params'') pairs) h of
         (nonTemplates, h1) \<Rightarrow>
      (case fromPairsH (filter (\<lambda>(k, v). hasH h v ''$params'') pairs) h1 of
         (templates, h2) \<Rightarrow>
      bindE (visit nonTemplates path subEnv0 h2) (\<lambda>(visited, h3).
      (case allocH (HObj []) h3 of
         (processedEnvValues, h4) \<Rightarrow>
      bindE (lodashMergeH processedEnvValues [visited, templates] h4) (\<lambda>h5.
      bindE (mkSubEnvH env processedEnvValues stackFrame) (\<lambda>subEnv.
      visitMapNodeH visit node path subEnv h5))))))))"

primrec visitNodeH :: "nat \<Rightarrow> externals \<Rightarrow> hval \<Rightarrow> string \<Rightarrow> EnvH \<Rightarrow> heap \<Rightarrow> error + (hval \<times> heap)" where
  "visitNodeH 0 ext node path env h = Inl StackOverflow"
| "visitNodeH (Suc n) ext node path env h =
     (let currNode = lastSegment path
      in if currNode = ''Resources'' \<and> \<not> includesStr path ''Overrides'' then
           Inl (Unmodelled ''visitResourceNode on the heap'')
         else if currNode = ''$envValues'' then Inl (ShouldNotReach path)
         else
           (case node of
              HStr s \<Rightarrow> bindE (visitStringNodeH ext s path env h) (\<lambda>r. Inr (r, h))
            | HRef a \<Rightarrow>
                (case derefH h node of
                   Some (HTag kind data) \<Rightarrow> visitYamlTagNodeH (visitNodeH n ext) kind data path env h
                 | Some (HArr xs) \<Rightarrow> visitArrayH (visitNodeH n ext) node path env h
                 | Some (HObj kvs) \<Rightarrow>
                     (if truthyH (getPropH h node ''$params'') then Inl (TemplateNotExpanded path)
                      else if truthyH (getPropH h node ''$envValues'') then
                        visitImportedDocH (visitNodeH n ext) node path env h
                      else visitMapNodeH (visitNodeH n ext) node path env h)
                 | Some (HDate di ds) \<Rightarrow>
                     (if currNode \<in> set [''Version'', ''AWSTemplateFormatVersion'']
                      then Inr (HStr (takeWhile (\<lambda>c. c \<noteq> CHR ''T'') di), h)
                      else Inr (node, h))
                 | None \<Rightarrow> Inl (Unmodelled ''a reference to no object''))
            | _ \<Rightarrow> Inr (node, h)))"

subsection \<open>\<open>loadImports\<close> and \<open>transform\<close> on the heap\<close>

text \<open>
  \<open>loadImports\<close> changes \<open>doc\<close> in place. The document an import loads is built anew
  on the heap, as the loader's parser does. The log is the list the tree model has.
\<close>

primrec loadImportsH ::
  "nat \<Rightarrow> externals \<Rightarrow> importLoader \<Rightarrow> hval \<Rightarrow> string \<Rightarrow> node list \<Rightarrow> heap
     \<Rightarrow> error + (node list \<times> heap)" where
  "loadImportsH 0 ext importLoader doc baseLocation importsAccum h = Inl ImportsNotLoaded"
| "loadImportsH (Suc n) ext importLoader doc baseLocation importsAccum h =
     (case allocH (HObj []) h of
        (fresh, h) \<Rightarrow>
     bindE (modelled ''doc.$envValues'' (setPropH h doc ''$envValues'' fresh)) (\<lambda>h.
     bindE
       (if truthyH (getPropH h doc ''$imports'') then
          (if \<not> isPlainObjectH h (getPropH h doc ''$imports'') then
             Inl (InvalidImports baseLocation)
           else
             foldM
               (\<lambda>asKey (importsAccum, h).
                  (case getPropH h (getPropH h doc ''$imports'') asKey of
                     HStr l \<Rightarrow>
                       bindE (if hasMustache l then
                                bindE (modelled ''an environment that contains itself''
                                         (readAll h (getPropH h doc ''$envValues''))) (\<lambda>vals.
                                interpolateHandlebarsString ext l vals
                                  (baseLocation @ '': '' @ asKey))
                              else Inr l) (\<lambda>loc.
                       bindE (importLoader loc baseLocation) (\<lambda>importData.
                       (case allocNode (importedDoc importData) h of
                          (d, h) \<Rightarrow>
                       bindE (if isObjectH d
                              then modelled ''doc.$location'' (setPropH h d ''$location'' (HStr loc))
                              else Inr h) (\<lambda>h.
                       let importsAccum = importsAccum @ [importRecord ext baseLocation importData asKey]
                       in
                       if HStr asKey \<in> set (map snd (toPairsH h (getPropH h doc ''$envValues''))) then
                         Inl (DuplicateImport asKey baseLocation)
                       else
                         bindE (modelled ''doc.$envValues[asKey]''
                                  (setPropH h (getPropH h doc ''$envValues'') asKey d)) (\<lambda>h.
                         if nullishH d then Inl (TypeError ''importData.doc.$imports'')
                         else if truthyH (getPropH h d ''$imports'') \<or> truthyH (getPropH h d ''$defs'')
                         then loadImportsH n ext importLoader d (resolvedLocation importData)
                                importsAccum h
                         else Inr (importsAccum, h))))))
                   | _ \<Rightarrow> Inl (TypeError ''loc.search is not a function'')))
               (keysH h (getPropH h doc ''$imports'')) (importsAccum, h))
        else Inr (importsAccum, h)) (\<lambda>(importsAccum, h).
     bindE
       (if truthyH (getPropH h doc ''$defs'') then
          foldM
            (\<lambda>key h.
               if key \<in> set (keysH h (getPropH h doc ''$envValues'')) then
                 Inl (DefCollision key baseLocation)
               else modelled ''doc.$envValues[key]''
                      (setPropH h (getPropH h doc ''$envValues'') key
                         (getPropH h (getPropH h doc ''$defs'') key)))
            (keysH h (getPropH h doc ''$defs'')) h
        else Inr h) (\<lambda>h.
     bindE
       (if truthyH (getPropH h doc ''$params'') then
          (if isArrayH h (getPropH h doc ''$params'') \<or> isStringH (getPropH h doc ''$params'') then
             foldM
               (\<lambda>param u.
                  if nullishH param then Inl (TypeError ''{Name}'')
                  else (case getPropH h param ''Name'' of
                          HStr name \<Rightarrow>
                            (if name \<in> set (keysH h (getPropH h doc ''$envValues''))
                             then Inl (ParamCollision name baseLocation) else Inr ())
                        | _ \<Rightarrow> Inr ()))
               (map snd (toPairsH h (getPropH h doc ''$params''))) ()
           else Inl (TypeError ''doc.$params is not iterable''))
        else Inr ()) (\<lambda>u.
     Inr (importsAccum, h))))))"

text \<open>
  \<open>transformPostImports\<close> for a document that is not a CloudFormation template: the
  accumulator, which only the \<open>Resources\<close> sections and the templates read, is left
  out.
\<close>

definition transformPostImportsH ::
  "nat \<Rightarrow> externals \<Rightarrow> hval \<Rightarrow> string \<Rightarrow> node list \<Rightarrow> heap \<Rightarrow> error + (hval \<times> heap)" where
  "transformPostImportsH n ext root rootDocLocation accumulatedImports h =
     (if truthyH (getPropH h root ''AWSTemplateFormatVersion'') \<or> truthyH (getPropH h root ''Resources'')
      then Inl (Unmodelled ''a CloudFormation template on the heap'')
      else
        (case allocH (HObj []) h of
           (output, h) \<Rightarrow>
        (case (if truthyH (getPropH h root ''$envValues'') then (getPropH h root ''$envValues'', h)
               else allocH (HObj []) h) of
           (vals, h) \<Rightarrow>
        bindE (visitNodeH n ext root ''Root''
                 \<lparr>envValuesH = vals, StackH = [(HStr rootDocLocation, ''Root'')]\<rparr> h)
          (\<lambda>(visited, h).
        bindE (lodashExtendH output visited h) (\<lambda>h.
        bindE (modelled ''delete'' (deletePropH h output ''$imports'')) (\<lambda>h.
        bindE (modelled ''delete'' (deletePropH h output ''$defs'')) (\<lambda>h.
        bindE (modelled ''delete'' (deletePropH h output ''$envValues'')) (\<lambda>h.
        Inr (output, h)))))))))"

text \<open>\<open>transform(root0, rootDocLocation, importLoader)\<close> for a root document that is a
  plain object.\<close>

definition transformH ::
  "nat \<Rightarrow> externals \<Rightarrow> importLoader \<Rightarrow> hval \<Rightarrow> string \<Rightarrow> heap \<Rightarrow> error + (hval \<times> heap)" where
  "transformH n ext importLoader root0 rootDocLocation h =
     (if \<not> isPlainObjectH h root0 then Inl (Unmodelled ''a root document that is not a mapping'')
      else
        (case cloneH h root0 of
           (root, h) \<Rightarrow>
             bindE (loadImportsH n ext importLoader root rootDocLocation [] h)
               (\<lambda>(accumulatedImports, h).
             transformPostImportsH n ext root rootDocLocation accumulatedImports h)))"

text \<open>
  A run of \<open>transform\<close> on a document the parser has just built: the output, and the
  caller's document as it reads when \<open>transform\<close> has returned.
\<close>

definition transformAndReread ::
  "nat \<Rightarrow> externals \<Rightarrow> importLoader \<Rightarrow> node \<Rightarrow> string \<Rightarrow> error + (node option \<times> node option)" where
  "transformAndReread n ext importLoader doc rootDocLocation =
     (case allocNode doc [] of
        (root0, h0) \<Rightarrow>
          bindE (transformH n ext importLoader root0 rootDocLocation h0) (\<lambda>(output, h1).
          Inr (readAll h1 output, readAll h1 root0)))"

section \<open>Concrete collaborators for the examples\<close>

text \<open>
  Externals whose template engine and YAML codec refuse every input and whose
  validators accept every value, and a loader that knows two \<open>literal:\<close> locations and
  one YAML file holding a resource template. The examples use no string template and
  no YAML text.
\<close>

definition exampleExternals :: externals where
  "exampleExternals =
     \<lparr>handlebars = (\<lambda>s env. None), yamlDump = (\<lambda>v. None), yamlLoadString = (\<lambda>v path. None),
      tv4Valid = (\<lambda>v schema. True), regexValid = (\<lambda>p. True), regexMatch = (\<lambda>p s. True),
      hostname = ''host'', username = ''user'', sha256Digest = (\<lambda>s. ''digest'')\<rparr>"

definition exampleTemplate :: node where
  "exampleTemplate =
     JObj [(''$params'', JArr [JObj [(''Name'', JStr ''N'')]]),
           (''Resources'',
            JObj [(''R'', JObj [(''Type'', JStr ''AWS::X''),
                               (''Properties'', JObj [(''V'', JTag TagInclude (JStr ''N''))])])]),
           (''Outputs'', JObj [(''O'', JTag TagRef (JStr ''R''))])]"

definition exampleLoader :: importLoader where
  "exampleLoader loc baseLocation =
     (if loc = ''literal:b'' then
        Inr \<lparr>importType = ''literal'', resolvedLocation = ''b'', importedData = ''b'',
             importedDoc = JStr ''b''\<rparr>
      else if loc = ''literal:x'' then
        Inr \<lparr>importType = ''literal'', resolvedLocation = ''x'', importedData = ''x'',
             importedDoc = JStr ''x''\<rparr>
      else if loc = ''t.yaml'' then
        Inr \<lparr>importType = ''file'', resolvedLocation = ''/t.yaml'', importedData = ''(text)'',
             importedDoc = exampleTemplate\<rparr>
      else Inl (LoaderError loc))"
















text \<open>
  A document whose \<open>$map\<close> runs over an escaped mapping, while \<open>$defs\<close> binds the
  name of the loop variable to a mapping.
\<close>

definition escapedItemExample :: node where
  "escapedItemExample =
     JObj [(''$defs'', JObj [(''item'', JObj [(''a'', JNum 1)])]),
           (''Out'', JTag TagMap
              (JObj [(''items'', JArr [JTag TagEscape (JObj [(''b'', JNum 2)])]),
                     (''template'', JStr ''x'')]))]"

section \<open>Properties of \<open>parseImportType\<close>\<close>

text \<open>
  C6. When the base location's scheme is \<open>s3\<close> or \<open>http\<close>: a location without an
  explicit scheme gets the base's scheme, and a location whose scheme is \<open>file\<close> or
  \<open>env\<close> is rejected. When the base is not remote, a scheme outside the supported
  set is an error.
\<close>

theorem parseImportType_remote_and_unknown:
  "(importTypeOf baseLocation \<in> {''s3'', ''http''} \<longrightarrow>
      (\<not> hasExplicitType location \<longrightarrow>
         parseImportType location baseLocation = Inr (importTypeOf baseLocation)) \<and>
      (hasExplicitType location \<and> importTypeOf location \<in> {''file'', ''env''} \<longrightarrow>
         parseImportType location baseLocation =
           Inl (ImportNotAllowedFromRemote location baseLocation))) \<and>
   (importTypeOf baseLocation \<notin> {''s3'', ''http''} \<and> importTypeOf location \<notin> set importTypes \<longrightarrow>
      parseImportType location baseLocation = Inl (UnknownImportType location baseLocation))"
  by (simp add: parseImportType_def localOnlyImportTypes_def Let_def)

theorem parseImportType_remote_and_unknown_witness:
  "parseImportType ''sub.yaml'' ''HTTP://h/a.yaml'' = Inr ''http'' \<and>
   parseImportType ''env:HOME'' ''s3://b/k.yaml'' =
     Inl (ImportNotAllowedFromRemote ''env:HOME'' ''s3://b/k.yaml'') \<and>
   parseImportType ''ftp:x'' ''/tmp/a.yaml'' = Inl (UnknownImportType ''ftp:x'' ''/tmp/a.yaml'')"
  using parseImportType_remote_and_unknown [of "''HTTP://h/a.yaml''" "''sub.yaml''"]
        parseImportType_remote_and_unknown [of "''s3://b/k.yaml''" "''env:HOME''"]
        parseImportType_remote_and_unknown [of "''/tmp/a.yaml''" "''ftp:x''"]
  by (simp add: importTypeOf_def hasExplicitType_def beforeColon_def toLowerCase_def
        toLowerChar_def importTypes_def)

section \<open>Properties of the tagged nodes\<close>

lemma bindE_simps [simp]:
  "bindE (Inl e) f = Inl e"
  "bindE (Inr x) f = f x"
  by (simp_all add: bindE_def)


lemma visitNode_atNode:
  assumes "atNode path"
  shows "visitNode (Suc n) ext node path env acc =
           (case node of
              JTag kind d \<Rightarrow> visitYamlTagNodeWith (visitNode n ext) ext kind d path env acc
            | JArr xs \<Rightarrow> visitArrayWith (visitNode n ext) xs path env acc
            | JObj kvs \<Rightarrow>
                (if truthy (getProp node ''$params'') then Inl (TemplateNotExpanded path)
                 else if truthy (getProp node ''$envValues'') then
                   visitImportedDocWith (visitNode n ext) node path env acc
                 else visitMapNodeWith (visitNode n ext) node path env acc)
            | JDate di ds \<Rightarrow>
                (if lastSegment path \<in> set [''Version'', ''AWSTemplateFormatVersion'']
                 then Inr (JStr (takeWhile (\<lambda>c. c \<noteq> CHR ''T'') di), acc)
                 else Inr (node, acc))
            | JStr s \<Rightarrow> bindE (visitStringNode ext s path env) (\<lambda>r. Inr (r, acc))
            | _ \<Rightarrow> Inr (node, acc))"
  using assms unfolding atNode_def by (auto simp add: Let_def)

declare visitNode.simps(2) [simp del]

lemma visitNode_tag:
  assumes "atNode path"
  shows "visitNode (Suc n) ext (JTag kind d) path env acc =
           visitYamlTagNode n ext kind d path env acc"
  by (simp add: visitNode_atNode [OF assms] visitYamlTagNode_def)






text \<open>
  C8, at the input where the code departs from the claim: a \<open>$map\<close> inside the
  template of a \<open>$map\<close>, both with the default variable. The inner template sees the
  item of the outer \<open>$map\<close> (\<open>_.merge({[varName]: item, ...}, env.$envValues)\<close> lets the
  outer scope overwrite the variable).
\<close>

theorem nested_map_item_shadowed_by_outer_scope:
  "transform 8 exampleExternals exampleLoader
     (JObj [(''Ys'',
             JTag TagMap
               (JObj [(''items'', JArr [JStr ''x'']),
                      (''template'',
                       JTag TagMap (JObj [(''items'', JArr [JStr ''y'']),
                                          (''template'', JTag TagInclude (JStr ''item''))]))]))])
     ''/r.yaml'' =
   Inr [(''Ys'', JArr [JArr [JStr ''x'']])]"
  by code_simp

section \<open>Properties of \<open>loadImports\<close>\<close>


section \<open>Association lists, loops and decimal indices\<close>

lemma map_of_assoc_set: "map_of (assoc_set k v kvs) = (map_of kvs)(k \<mapsto> v)"
  by (induction kvs) (auto simp: fun_eq_iff)



















section \<open>Merging and the output sections\<close>

lemma getProp_assoc_set:
  "getProp (JObj (assoc_set k v kvs)) k' = (if k' = k then v else getProp (JObj kvs) k')"
  by (simp add: map_of_assoc_set)











lemma map_of_extend:
  assumes "distinct (map fst kvs)"
  shows "map_of (foldl (\<lambda>acc (k, v). assoc_set k v acc) seed kvs) x =
           (case map_of kvs x of Some v \<Rightarrow> Some v | None \<Rightarrow> map_of seed x)"
  using assms
proof (induction kvs arbitrary: seed)
  case Nil
  then show ?case by simp
next
  case (Cons kv kvs)
  obtain k v where kv: "kv = (k, v)" by (cases kv)
  from Cons.prems kv have fresh: "map_of kvs k = None" and d: "distinct (map fst kvs)"
    by (auto simp: map_of_eq_None_iff)
  have "map_of (foldl (\<lambda>acc (k, v). assoc_set k v acc) (assoc_set k v seed) kvs) x =
          (case map_of kvs x of Some v \<Rightarrow> Some v | None \<Rightarrow> map_of (assoc_set k v seed) x)"
    by (rule Cons.IH [OF d])
  with fresh show ?case
    by (auto simp: kv map_of_assoc_set split: option.splits)
qed


lemma getProp_lodashExtend:
  assumes "distinct (map fst kvs)"
  shows "getProp (JObj (lodashExtend seed (JObj kvs))) k =
           (case map_of kvs k of Some v \<Rightarrow> v | None \<Rightarrow> getProp (JObj seed) k)"
  by (simp add: lodashExtend_def map_of_extend [OF assms] split: option.splits)













section \<open>Properties of the output\<close>












section \<open>Documents without meta-keys\<close>












lemma startsWith_Cons_diff: "c \<noteq> p \<Longrightarrow> \<not> startsWith (c # cs) (p # ps)"
  by simp













































section \<open>The caller's document\<close>

text \<open>
  C10 at a document with an escaped item. \<open>transform\<close> returns \<open>{Out: ['x']}\<close>, and the
  caller's document, read again after the call, has \<open>!$escape {b: 2, a: 1}\<close> where it
  had \<open>!$escape {b: 2}\<close>: \<open>_.clone\<close> copies the root object only, \<open>$escape\<close> hands out
  its payload itself, and \<open>$map\<close> merges the outer binding of \<open>item\<close> into it in place.
  The root object keeps its own properties: it has no \<open>$envValues\<close> and no \<open>$location\<close>.
  The tree walker gives the same output.
\<close>

theorem transform_changes_escaped_item:
  "transformAndReread 6 exampleExternals exampleLoader escapedItemExample ''/r.yaml'' =
     Inr (Some (JObj [(''Out'', JArr [JStr ''x''])]),
          Some (JObj [(''$defs'', JObj [(''item'', JObj [(''a'', JNum 1)])]),
                      (''Out'', JTag TagMap
                         (JObj [(''items'', JArr [JTag TagEscape (JObj [(''b'', JNum 2), (''a'', JNum 1)])]),
                                (''template'', JStr ''x'')]))])) \<and>
   transform 6 exampleExternals exampleLoader escapedItemExample ''/r.yaml'' =
     Inr [(''Out'', JArr [JStr ''x''])]"
  by code_simp

end
